theory Spec2Isabelle
  imports Complex_Main
begin

section \<open>Numbers\<close>

text \<open>
  The hook \<open>hooks/useTradingBot.ts\<close> computes with JavaScript numbers, which are IEEE-754
  binary64 values. A finite number is modelled by the rational it denotes, and each
  arithmetic operator rounds its exact result to the nearest value with a 53-bit
  significand, ties to the even significand. Infinities, NaN, signed zero and the
  subnormal range are outside the model: a division by zero yields an infinity or NaN in
  the source and has no counterpart here, so what the model computes from a zero divisor
  says nothing about the source.
\<close>

type_synonym number = rat

definition pow2 :: "int \<Rightarrow> rat" where
  "pow2 k = (if 0 \<le> k then 2 ^ nat k else 1 / 2 ^ nat (- k))"

function bitlength :: "int \<Rightarrow> int" where
  "bitlength k = (if k \<le> 0 then 0 else 1 + bitlength (k div 2))"
  by pat_completeness auto
termination
  by (relation "measure nat") auto

declare bitlength.simps [simp del]

definition floor_log2 :: "rat \<Rightarrow> int" where
  "floor_log2 a =
     (let (p, q) = quotient_of a;
          e0 = bitlength p - bitlength q
      in if pow2 e0 \<le> a then e0 else e0 - 1)"

definition round_half_even :: "rat \<Rightarrow> int" where
  "round_half_even m =
     (let f = \<lfloor>m\<rfloor>; d = m - of_int f
      in if d < 1 / 2 then f
         else if 1 / 2 < d then f + 1
         else if f mod 2 = 0 then f else f + 1)"

definition to_double :: "rat \<Rightarrow> number" where
  "to_double x =
     (if x = 0 then 0
      else let a = \<bar>x\<bar>;
               e = floor_log2 a - 52;
               n = round_half_even (a / pow2 e)
           in sgn x * of_int n * pow2 e)"

definition num_add :: "number \<Rightarrow> number \<Rightarrow> number" where
  "num_add x y = to_double (x + y)"

definition num_sub :: "number \<Rightarrow> number \<Rightarrow> number" where
  "num_sub x y = to_double (x - y)"

definition num_mul :: "number \<Rightarrow> number \<Rightarrow> number" where
  "num_mul x y = to_double (x * y)"

definition num_div :: "number \<Rightarrow> number \<Rightarrow> number" where
  "num_div x y = to_double (x / y)"

definition Math_floor :: "number \<Rightarrow> number" where
  "Math_floor x = of_int \<lfloor>x\<rfloor>"

definition Math_pow10 :: "nat \<Rightarrow> number" where
  \<comment> \<open>\<open>Math.pow(10, precision)\<close>; exact for the precisions a venue reports (up to 22 digits).\<close>
  "Math_pow10 p = to_double (10 ^ p)"

section \<open>Precision adapter\<close>

text \<open>
  \<open>SymbolPrecisionInfo\<close> is declared in \<open>services/asterdexService\<close>; the hook reads its
  field \<open>quantityPrecision\<close>, the number of digits after the decimal point.
\<close>

record SymbolPrecisionInfo =
  quantityPrecision :: nat

definition getAdjustedQuantity ::
  "(string \<rightharpoonup> SymbolPrecisionInfo) \<Rightarrow> string \<Rightarrow> number \<Rightarrow> number" where
  "getAdjustedQuantity symbolPrecisions symbol rawQuantity =
     (let precision = (case symbolPrecisions symbol of
                         None \<Rightarrow> 3
                       | Some info \<Rightarrow> quantityPrecision info);
          factor = Math_pow10 precision
      in num_div (Math_floor (num_mul rawQuantity factor)) factor)"

section \<open>Data model\<close>

text \<open>
  The types of \<open>types.ts\<close> are declared outside the sources at hand; the records below
  carry the fields that the hook reads or writes, under the names it uses (prefixed where
  two types share a field name). An optional field is an \<open>option\<close>.
\<close>

datatype AiAction = LONG | SHORT | CLOSE | HOLD

datatype OrderType = OrderType_LONG | OrderType_SHORT

datatype TradingMode = Paper | Real

record AiDecision =
  d_action :: AiAction
  d_symbol :: "string option"
  d_size :: "number option"
  d_leverage :: "number option"
  d_stopLoss :: "number option"
  d_takeProfit :: "number option"
  d_closePositionId :: "string option"
  d_reasoning :: string

record Position =
  p_id :: string
  p_symbol :: string
  p_type :: OrderType
  p_entryPrice :: number
  p_size :: number
  p_leverage :: number
  p_pnl :: number

record Portfolio =
  balance :: number
  pnl :: number
  totalValue :: number
  positions :: "Position list"

record Market =
  m_symbol :: string
  m_price :: number

record Order =
  o_id :: string
  o_pnl :: number

record ValueHistoryPoint =
  vh_timestamp :: number
  vh_value :: number

text \<open>
  A note is a line of the turn log. The source builds each line from a template string;
  a constructor stands for a template and carries the values the template interpolates,
  before \<open>toFixed\<close> renders them:
  \<^item> \<open>RejectedBelowMinimum\<close>: REJECTED action symbol: Margin size is below minimum of 50.
  \<^item> \<open>RejectedCooldown\<close>: REJECTED action symbol: Symbol is on cooldown for minutesLeft
    more minutes.
  \<^item> \<open>LeverageAdjusted\<close>: NOTE: Leverage for symbol adjusted from Nx to exchange max of Mx.
  \<^item> \<open>RejectedBalance\<close>: REJECTED action symbol: Available balance b is below the minimum
    trade size of 50.
  \<^item> \<open>SizeAdjusted\<close>: NOTE: Trade size for symbol adjusted from size to fit available
    margin of b.
  \<^item> \<open>RejectedAdjustedSize\<close>: REJECTED action symbol: Adjusted trade size is below
    minimum of 50.
  \<^item> \<open>QuantityZero\<close>: Execution Warning: Calculated quantity for symbol is 0.
  \<^item> \<open>OpenedPosition\<close>: SUCCESS: Opened action symbol position.
  \<^item> \<open>ProtectivePlaced\<close>: SUCCESS: leg order placed for symbol.
  \<^item> \<open>ProtectiveFailed\<close>: ERROR: Failed to place leg order for symbol: message.
  \<^item> \<open>ClosedPosition\<close>: SUCCESS: Closed symbol position. Cooldown initiated.
  \<^item> \<open>PositionGone\<close>: NOTE: Attempted to close id, but position no longer exists on
    exchange.
  \<^item> \<open>ExecutionError\<close>: Execution Error: message.
\<close>

datatype Leg = Stop_Loss | Take_Profit

datatype Note =
    RejectedBelowMinimum AiAction "string option" number
  | RejectedCooldown AiAction string number
  | LeverageAdjusted string number number
  | RejectedBalance AiAction string number
  | SizeAdjusted string number number
  | RejectedAdjustedSize AiAction string number
  | QuantityZero string
  | OpenedPosition AiAction string
  | ProtectivePlaced Leg string
  | ProtectiveFailed Leg string string
  | ClosedPosition string
  | PositionGone "string option"
  | ExecutionError string

record BotLog =
  l_timestamp :: number
  l_decisions :: "AiDecision list"
  l_prompt :: string
  l_notes :: "Note list"

record BotState =
  b_id :: string
  b_name :: string
  b_prompt :: string
  tradingMode :: TradingMode
  portfolio :: Portfolio
  orders :: "Order list"
  botLogs :: "BotLog list"
  valueHistory :: "ValueHistoryPoint list"
  isLoading :: bool
  isPaused :: bool
  realizedPnl :: number
  tradeCount :: number
  winRate :: number
  symbolCooldowns :: "string \<rightharpoonup> number"

datatype Side = BUY | SELL

datatype OrderKind = MARKET | STOP_MARKET | TAKE_PROFIT_MARKET

record OrderRequest =
  r_symbol :: string
  r_side :: Side
  r_type :: OrderKind
  r_quantity :: number
  r_stopPrice :: "number option"
  r_reduceOnly :: bool

text \<open>
  The hook imports its constants, the leverage table and the venue and decision services
  from modules outside the sources at hand. They are the fields of an environment. A
  service call takes the state \<open>'w\<close> of the outside world and returns its outcome with
  the next state; a call that throws returns the message of the error. \<open>Date_now\<close>
  reads the clock of the world.
\<close>

record 'w Env =
  LIVE_BOT_INITIAL_BALANCE :: number
  PAPER_BOT_INITIAL_BALANCE :: number
  leverageLimits :: "string \<rightharpoonup> number"
  Date_now :: "'w \<Rightarrow> number"
  setLeverage :: "string \<Rightarrow> number \<Rightarrow> string \<Rightarrow> 'w \<Rightarrow> string option \<times> 'w"
  placeRealOrder :: "OrderRequest \<Rightarrow> string \<Rightarrow> 'w \<Rightarrow> string option \<times> 'w"
  getRealAccountState :: "string \<Rightarrow> 'w \<Rightarrow> (string + Portfolio) \<times> 'w"
  getRealTradeHistory :: "string \<Rightarrow> 'w \<Rightarrow> (string + Order list) \<times> 'w"
  getDecision :: "BotState \<Rightarrow> Market list \<Rightarrow> 'w \<Rightarrow> (string \<times> AiDecision list) \<times> 'w"

definition MINIMUM_TRADE_SIZE_USD :: number where
  "MINIMUM_TRADE_SIZE_USD = 50"

definition SYMBOL_COOLDOWN_MS :: number where
  "SYMBOL_COOLDOWN_MS = 30 * 60 * 1000"

text \<open>Truthiness of an optional number and of an optional string, as \<open>&&\<close> and \<open>||\<close> test it.\<close>

definition truthyNumber :: "number option \<Rightarrow> bool" where
  "truthyNumber x = (case x of None \<Rightarrow> False | Some v \<Rightarrow> v \<noteq> 0)"

definition truthyString :: "string option \<Rightarrow> bool" where
  "truthyString x = (case x of None \<Rightarrow> False | Some v \<Rightarrow> v \<noteq> [])"

definition isDirectional :: "AiAction \<Rightarrow> bool" where
  "isDirectional a = (a = LONG \<or> a = SHORT)"

section \<open>Validation of the proposed decisions\<close>

text \<open>
  The body of \<open>decisions.forEach\<close> in \<open>runTradingTurn\<close>: the notes it pushes and the pair
  it pushes to \<open>validatedDecisions\<close>, if any. The loop runs without waiting for a service,
  and the model gives it one reading of the clock.
\<close>

definition belowMinimum :: "AiDecision \<Rightarrow> bool" where
  "belowMinimum decision =
     (isDirectional (d_action decision) \<and>
      (case d_size decision of
         None \<Rightarrow> False
       | Some s \<Rightarrow> s \<noteq> 0 \<and> s < MINIMUM_TRADE_SIZE_USD))"

definition cooldownLeft :: "BotState \<Rightarrow> number \<Rightarrow> AiDecision \<Rightarrow> (string \<times> number) option" where
  "cooldownLeft bt now decision =
     (case d_symbol decision of
        None \<Rightarrow> None
      | Some symbol \<Rightarrow>
          if isDirectional (d_action decision) \<and> symbol \<noteq> [] then
            (case symbolCooldowns bt symbol of
               None \<Rightarrow> None
             | Some cooldownEndTime \<Rightarrow>
                 if cooldownEndTime \<noteq> 0 \<and> now < cooldownEndTime
                 then Some (symbol, num_div (num_sub cooldownEndTime now) 60000)
                 else None)
          else None)"

definition requestedLeverage :: "AiDecision \<Rightarrow> number" where
  \<comment> \<open>\<open>decision.leverage || 1\<close>\<close>
  "requestedLeverage decision =
     (case d_leverage decision of
        None \<Rightarrow> 1
      | Some l \<Rightarrow> if l \<noteq> 0 then l else 1)"

definition maxLeverageOf :: "(string \<rightharpoonup> number) \<Rightarrow> string \<Rightarrow> number" where
  \<comment> \<open>\<open>leverageLimits.get(symbol) ?? 25\<close>\<close>
  "maxLeverageOf limits symbol = (case limits symbol of None \<Rightarrow> 25 | Some m \<Rightarrow> m)"

definition adjustLeverage ::
  "(string \<rightharpoonup> number) \<Rightarrow> AiDecision \<Rightarrow> Note list \<times> number" where
  "adjustLeverage limits decision =
     (let adjustedLeverage = requestedLeverage decision
      in case d_symbol decision of
           None \<Rightarrow> ([], adjustedLeverage)
         | Some symbol \<Rightarrow>
             if isDirectional (d_action decision) \<and> symbol \<noteq> [] then
               (let maxLeverage = maxLeverageOf limits symbol
                in if maxLeverage < adjustedLeverage
                   then ([LeverageAdjusted symbol adjustedLeverage maxLeverage], maxLeverage)
                   else ([], adjustedLeverage))
             else ([], adjustedLeverage))"

definition validateDecision ::
  "(string \<rightharpoonup> number) \<Rightarrow> BotState \<Rightarrow> number \<Rightarrow> AiDecision \<Rightarrow>
     Note list \<times> (AiDecision \<times> number) option" where
  "validateDecision limits bt now decision =
     (if belowMinimum decision then
        (case d_size decision of
           None \<Rightarrow> ([], None)
         | Some s \<Rightarrow> ([RejectedBelowMinimum (d_action decision) (d_symbol decision) s], None))
      else
        (case cooldownLeft bt now decision of
           Some (symbol, minutesLeft) \<Rightarrow>
             ([RejectedCooldown (d_action decision) symbol minutesLeft], None)
         | None \<Rightarrow>
             (let (ns, adjustedLeverage) = adjustLeverage limits decision
              in (ns, Some (decision, adjustedLeverage)))))"

fun validateDecisions ::
  "(string \<rightharpoonup> number) \<Rightarrow> BotState \<Rightarrow> number \<Rightarrow> AiDecision list \<Rightarrow>
     Note list \<times> (AiDecision \<times> number) list" where
  "validateDecisions limits bt now [] = ([], [])"
| "validateDecisions limits bt now (decision # rest) =
     (let (ns, v) = validateDecision limits bt now decision;
          (notes, validatedDecisions) = validateDecisions limits bt now rest
      in (ns @ notes, (case v of None \<Rightarrow> [] | Some x \<Rightarrow> [x]) @ validatedDecisions))"

section \<open>Live execution of the validated decisions\<close>

fun startsWith :: "string \<Rightarrow> string \<Rightarrow> bool" where
  "startsWith s [] = True"
| "startsWith [] (p # ps) = False"
| "startsWith (c # cs) (p # ps) = (c = p \<and> startsWith cs ps)"

fun String_includes :: "string \<Rightarrow> string \<Rightarrow> bool" where
  "String_includes [] pat = (pat = [])"
| "String_includes (c # cs) pat = (startsWith (c # cs) pat \<or> String_includes cs pat)"

text \<open>The \<open>catch\<close> clause of the loop body: the note for an error with the given message.\<close>

definition catchNote :: "AiDecision \<Rightarrow> string \<Rightarrow> Note" where
  "catchNote decision message =
     (if message \<noteq> [] \<and> String_includes message ''ReduceOnly Order is rejected''
      then PositionGone (d_closePositionId decision)
      else ExecutionError message)"

text \<open>
  Step 3 of an open: the stop-loss and take-profit orders. The source starts both requests
  and waits for both with \<open>Promise.allSettled\<close>; the model issues them in the order in
  which the source starts them.
\<close>

definition protectiveOrders ::
  "'w Env \<Rightarrow> string \<Rightarrow> AiDecision \<Rightarrow> string \<Rightarrow> number \<Rightarrow> 'w \<Rightarrow> Note list \<times> 'w" where
  "protectiveOrders env botId decision symbol quantity w =
     (let orderSide = (if d_action decision = LONG then SELL else BUY);
          (rs1, w1) =
            (case d_stopLoss decision of
               None \<Rightarrow> ([], w)
             | Some sl \<Rightarrow>
                 if sl \<noteq> 0 then
                   (let (r, w') = placeRealOrder env
                          \<lparr>r_symbol = symbol, r_side = orderSide, r_type = STOP_MARKET,
                           r_quantity = quantity, r_stopPrice = Some sl, r_reduceOnly = True\<rparr>
                          botId w
                    in ([r], w'))
                 else ([], w));
          (rs2, w2) =
            (case d_takeProfit decision of
               None \<Rightarrow> ([], w1)
             | Some tp \<Rightarrow>
                 if tp \<noteq> 0 then
                   (let (r, w') = placeRealOrder env
                          \<lparr>r_symbol = symbol, r_side = orderSide, r_type = TAKE_PROFIT_MARKET,
                           r_quantity = quantity, r_stopPrice = Some tp, r_reduceOnly = True\<rparr>
                          botId w1
                    in ([r], w'))
                 else ([], w1));
          results = rs1 @ rs2
      in (map (\<lambda>(i, result).
                 let leg = (if i = 0 \<and> truthyNumber (d_stopLoss decision)
                            then Stop_Loss else Take_Profit)
                 in case result of
                      None \<Rightarrow> ProtectivePlaced leg symbol
                    | Some message \<Rightarrow> ProtectiveFailed leg symbol message)
              (enumerate 0 results),
          w2))"

text \<open>Steps 1 to 3 of an open, for a trade size that passed the sizing stages.\<close>

definition placeOpenOrders ::
  "'w Env \<Rightarrow> (string \<rightharpoonup> SymbolPrecisionInfo) \<Rightarrow> BotState \<Rightarrow> AiDecision \<Rightarrow> number \<Rightarrow>
     string \<Rightarrow> number \<Rightarrow> Market \<Rightarrow> BotState \<times> Note list \<times> 'w \<Rightarrow> BotState \<times> Note list \<times> 'w" where
  "placeOpenOrders env symbolPrecisions bt decision adjustedLeverage symbol tradeSize market st =
     (let (updatedBotState, notes, w) = st
      in case setLeverage env symbol adjustedLeverage (b_id bt) w of
           (Some message, w1) \<Rightarrow> (updatedBotState, notes @ [catchNote decision message], w1)
         | (None, w1) \<Rightarrow>
             (let rawQuantity = num_div (num_mul tradeSize adjustedLeverage) (m_price market);
                  quantity = getAdjustedQuantity symbolPrecisions symbol rawQuantity
              in if quantity \<le> 0 then (updatedBotState, notes @ [QuantityZero symbol], w1)
                 else
                   (case placeRealOrder env
                           \<lparr>r_symbol = symbol,
                            r_side = (if d_action decision = LONG then BUY else SELL),
                            r_type = MARKET, r_quantity = quantity, r_stopPrice = None,
                            r_reduceOnly = False\<rparr>
                           (b_id bt) w1 of
                      (Some message, w2) \<Rightarrow>
                        (updatedBotState, notes @ [catchNote decision message], w2)
                    | (None, w2) \<Rightarrow>
                        (let (ns, w3) = protectiveOrders env (b_id bt) decision symbol quantity w2
                         in (updatedBotState,
                             notes @ [OpenedPosition (d_action decision) symbol] @ ns, w3)))))"

text \<open>The open branch of the loop body: the sizing stages, then the orders.\<close>

definition liveOpen ::
  "'w Env \<Rightarrow> (string \<rightharpoonup> SymbolPrecisionInfo) \<Rightarrow> BotState \<Rightarrow> AiDecision \<Rightarrow> number \<Rightarrow>
     string \<Rightarrow> number \<Rightarrow> Market \<Rightarrow> BotState \<times> Note list \<times> 'w \<Rightarrow> BotState \<times> Note list \<times> 'w" where
  "liveOpen env symbolPrecisions bt decision adjustedLeverage symbol size0 market st =
     (let (updatedBotState, notes, w) = st;
          availableBalance = balance (portfolio updatedBotState)
      in if availableBalance < MINIMUM_TRADE_SIZE_USD then
           (updatedBotState,
            notes @ [RejectedBalance (d_action decision) symbol availableBalance], w)
         else
           (let (notes1, tradeSize) =
                  (if availableBalance < size0
                   then (notes @ [SizeAdjusted symbol size0 availableBalance], availableBalance)
                   else (notes, size0))
            in if tradeSize < MINIMUM_TRADE_SIZE_USD then
                 (updatedBotState,
                  notes1 @ [RejectedAdjustedSize (d_action decision) symbol tradeSize], w)
               else placeOpenOrders env symbolPrecisions bt decision adjustedLeverage symbol
                      tradeSize market (updatedBotState, notes1, w)))"

text \<open>The close branch of the loop body.\<close>

definition liveClose ::
  "'w Env \<Rightarrow> (string \<rightharpoonup> SymbolPrecisionInfo) \<Rightarrow> BotState \<Rightarrow> AiDecision \<Rightarrow> string \<Rightarrow>
     BotState \<times> Note list \<times> 'w \<Rightarrow> BotState \<times> Note list \<times> 'w" where
  "liveClose env symbolPrecisions bt decision closePositionId st =
     (let (updatedBotState, notes, w) = st
      in case find (\<lambda>p. p_id p = closePositionId) (positions (portfolio bt)) of
           None \<Rightarrow> st
         | Some posToClose \<Rightarrow>
             (let rawQuantity =
                    \<bar>num_div (num_mul (p_size posToClose) (p_leverage posToClose))
                       (p_entryPrice posToClose)\<bar>;
                  quantity = getAdjustedQuantity symbolPrecisions (p_symbol posToClose) rawQuantity
              in if 0 < quantity then
                   (case placeRealOrder env
                           \<lparr>r_symbol = p_symbol posToClose,
                            r_side = (if p_type posToClose = OrderType_LONG then SELL else BUY),
                            r_type = MARKET, r_quantity = quantity, r_stopPrice = None,
                            r_reduceOnly = True\<rparr>
                           (b_id bt) w of
                      (Some message, w1) \<Rightarrow>
                        (updatedBotState, notes @ [catchNote decision message], w1)
                    | (None, w1) \<Rightarrow>
                        (updatedBotState
                           \<lparr>symbolCooldowns := (symbolCooldowns updatedBotState)
                              (p_symbol posToClose \<mapsto>
                                 num_add (Date_now env w1) SYMBOL_COOLDOWN_MS)\<rparr>,
                         notes @ [ClosedPosition (p_symbol posToClose)], w1))
                 else st))"

text \<open>The guard of the open branch and the body of the loop over the validated decisions.\<close>

definition findMarket :: "Market list \<Rightarrow> AiDecision \<Rightarrow> Market option" where
  "findMarket markets decision = find (\<lambda>m. Some (m_symbol m) = d_symbol decision) markets"

definition opensPosition :: "Market list \<Rightarrow> AiDecision \<Rightarrow> bool" where
  "opensPosition markets decision =
     (isDirectional (d_action decision) \<and> findMarket markets decision \<noteq> None \<and>
      truthyNumber (d_size decision) \<and> truthyString (d_symbol decision))"

definition executeLiveDecision ::
  "'w Env \<Rightarrow> (string \<rightharpoonup> SymbolPrecisionInfo) \<Rightarrow> Market list \<Rightarrow> BotState \<Rightarrow>
     AiDecision \<times> number \<Rightarrow> BotState \<times> Note list \<times> 'w \<Rightarrow> BotState \<times> Note list \<times> 'w" where
  "executeLiveDecision env symbolPrecisions markets bt va st =
     (let (decision, adjustedLeverage) = va
      in if opensPosition markets decision then
           (case (findMarket markets decision, d_size decision, d_symbol decision) of
              (Some market, Some size0, Some symbol) \<Rightarrow>
                liveOpen env symbolPrecisions bt decision adjustedLeverage symbol size0 market st
            | _ \<Rightarrow> st)
         else if d_action decision = CLOSE \<and> truthyString (d_closePositionId decision) then
           (case d_closePositionId decision of
              Some closePositionId \<Rightarrow>
                liveClose env symbolPrecisions bt decision closePositionId st
            | None \<Rightarrow> st)
         else st)"

fun runLive ::
  "'w Env \<Rightarrow> (string \<rightharpoonup> SymbolPrecisionInfo) \<Rightarrow> Market list \<Rightarrow> BotState \<Rightarrow>
     (AiDecision \<times> number) list \<Rightarrow> BotState \<times> Note list \<times> 'w \<Rightarrow> BotState \<times> Note list \<times> 'w" where
  "runLive env symbolPrecisions markets bt [] st = st"
| "runLive env symbolPrecisions markets bt (va # rest) st =
     runLive env symbolPrecisions markets bt rest
       (executeLiveDecision env symbolPrecisions markets bt va st)"

section \<open>The state of the hook\<close>

text \<open>
  The React state \<open>bots\<close> and \<open>markets\<close> and the reference \<open>initialBalanceRef\<close>. The
  callbacks run on the state as a whole, one after the other: the interleaving of a
  refresh with a turn that is still waiting for a service is outside the model.
\<close>

record HookState =
  bots :: "BotState list"
  markets :: "Market list"
  initialBalanceRef :: "string \<rightharpoonup> number"

record BotConfig =
  c_id :: string
  c_name :: string
  c_prompt :: string
  c_mode :: TradingMode
  c_isPaused :: bool

definition createNewBot ::
  "'w Env \<Rightarrow> string \<Rightarrow> string \<Rightarrow> string \<Rightarrow> TradingMode \<Rightarrow> 'w \<Rightarrow> BotState" where
  "createNewBot env ident name prompt mode w =
     (let initialBalance =
            (if mode = Real then LIVE_BOT_INITIAL_BALANCE env else PAPER_BOT_INITIAL_BALANCE env)
      in \<lparr>b_id = ident, b_name = name, b_prompt = prompt, tradingMode = mode,
          portfolio = \<lparr>balance = initialBalance, pnl = 0, totalValue = initialBalance,
                       positions = []\<rparr>,
          orders = [], botLogs = [],
          valueHistory = [\<lparr>vh_timestamp = Date_now env w, vh_value = initialBalance\<rparr>],
          isLoading = False, isPaused = False, realizedPnl = 0, tradeCount = 0, winRate = 0,
          symbolCooldowns = Map.empty\<rparr>)"

definition sumPnl :: "Order list \<Rightarrow> number" where
  \<comment> \<open>\<open>orders.reduce((acc, o) => acc + o.pnl, 0)\<close>\<close>
  "sumPnl os = foldl (\<lambda>acc order. num_add acc (o_pnl order)) 0 os"

subsection \<open>Initialisation\<close>

text \<open>
  The one-time sync of \<open>initialize\<close> for one agent. The two venue requests are both
  started and run against a five-second timer; a timeout is a failed request.
\<close>

definition initialSync ::
  "'w Env \<Rightarrow> BotState \<Rightarrow> (string \<rightharpoonup> number) \<times> 'w \<Rightarrow> BotState \<times> (string \<rightharpoonup> number) \<times> 'w" where
  "initialSync env bt st =
     (let (ref, w) = st
      in if tradingMode bt = Real then
           (let (r1, w1) = getRealAccountState env (b_id bt) w;
                (r2, w2) = getRealTradeHistory env (b_id bt) w1
            in case (r1, r2) of
                 (Inr realPortfolio, Inr realOrders) \<Rightarrow>
                   (bt\<lparr>portfolio := realPortfolio, orders := realOrders,
                       realizedPnl := sumPnl realOrders,
                       valueHistory :=
                         [\<lparr>vh_timestamp = Date_now env w2,
                           vh_value = totalValue realPortfolio\<rparr>]\<rparr>,
                    ref(b_id bt \<mapsto> LIVE_BOT_INITIAL_BALANCE env), w2)
               | _ \<Rightarrow> (bt, ref(b_id bt \<mapsto> LIVE_BOT_INITIAL_BALANCE env), w2))
         else (bt, ref(b_id bt \<mapsto> PAPER_BOT_INITIAL_BALANCE env), w))"

fun initialSyncAll ::
  "'w Env \<Rightarrow> BotState list \<Rightarrow> (string \<rightharpoonup> number) \<times> 'w \<Rightarrow>
     BotState list \<times> (string \<rightharpoonup> number) \<times> 'w" where
  "initialSyncAll env [] st = ([], st)"
| "initialSyncAll env (bt # rest) st =
     (let (bt', st1) = initialSync env bt st;
          (rest', st2) = initialSyncAll env rest st1
      in (bt' # rest', st2))"

definition initialBots ::
  "'w Env \<Rightarrow> BotConfig list \<Rightarrow> BotState list \<Rightarrow> 'w \<Rightarrow> BotState list" where
  "initialBots env botConfigs savedBots w =
     (if savedBots \<noteq> [] then
        concat (map (\<lambda>savedBot.
                  case find (\<lambda>c. c_id c = b_id savedBot) botConfigs of
                    None \<Rightarrow> []
                  | Some config \<Rightarrow>
                      [savedBot\<lparr>tradingMode := c_mode config, isPaused := c_isPaused config\<rparr>])
                savedBots)
      else
        map (\<lambda>bt. bt\<lparr>isPaused :=
                      (case find (\<lambda>c. c_id c = b_id bt) botConfigs of
                         None \<Rightarrow> False
                       | Some config \<Rightarrow> c_isPaused config)\<rparr>)
            (map (\<lambda>c. createNewBot env (c_id c) (c_name c) (c_prompt c) (c_mode c) w)
                 botConfigs))"

definition initialize ::
  "'w Env \<Rightarrow> BotConfig list \<Rightarrow> BotState list \<Rightarrow> 'w \<Rightarrow> HookState \<times> 'w" where
  "initialize env botConfigs savedBots w =
     (if botConfigs = [] then
        (\<lparr>bots = [], markets = [], initialBalanceRef = Map.empty\<rparr>, w)
      else
        (let (liveCorrectedBots, ref, w') =
               initialSyncAll env (initialBots env botConfigs savedBots w) (Map.empty, w)
         in (\<lparr>bots = liveCorrectedBots, markets = [], initialBalanceRef = ref\<rparr>, w')))"

subsection \<open>Refresh tick\<close>

text \<open>
  The paper branch of \<open>updatePortfolios\<close>: the \<open>map\<close> over the positions with its two
  accumulators \<open>unrealizedPnl\<close> and \<open>totalMarginUsed\<close>.
\<close>

definition currentPriceOf :: "Market list \<Rightarrow> Position \<Rightarrow> number" where
  "currentPriceOf marketData pos =
     (case find (\<lambda>m. m_symbol m = p_symbol pos) marketData of
        None \<Rightarrow> p_entryPrice pos
      | Some m \<Rightarrow> m_price m)"

definition positionPnl :: "Market list \<Rightarrow> Position \<Rightarrow> number" where
  "positionPnl marketData pos =
     (let currentPrice = currentPriceOf marketData pos;
          assetQuantity = num_div (num_mul (p_size pos) (p_leverage pos)) (p_entryPrice pos)
      in num_mul (num_mul (num_sub currentPrice (p_entryPrice pos)) assetQuantity)
           (if p_type pos = OrderType_LONG then 1 else - 1))"

fun updatePositions ::
  "Market list \<Rightarrow> Position list \<Rightarrow> number \<times> number \<Rightarrow> Position list \<times> number \<times> number" where
  "updatePositions marketData [] acc = ([], acc)"
| "updatePositions marketData (pos # rest) acc =
     (let (unrealizedPnl, totalMarginUsed) = acc;
          pnl0 = positionPnl marketData pos;
          (rest', acc') = updatePositions marketData rest
                            (num_add unrealizedPnl pnl0, num_add totalMarginUsed (p_size pos))
      in (pos\<lparr>p_pnl := pnl0\<rparr> # rest', acc'))"

definition refreshPaper :: "Market list \<Rightarrow> Portfolio \<Rightarrow> Portfolio" where
  "refreshPaper marketData pf =
     (let (updatedPositions, unrealizedPnl, totalMarginUsed) =
            updatePositions marketData (positions pf) (0, 0);
          totalValue0 = num_add (num_add (balance pf) totalMarginUsed) unrealizedPnl
      in pf\<lparr>pnl := unrealizedPnl, totalValue := totalValue0, positions := updatedPositions\<rparr>)"

definition lastN :: "nat \<Rightarrow> 'a list \<Rightarrow> 'a list" where
  \<comment> \<open>\<open>xs.slice(-n)\<close>\<close>
  "lastN n xs = drop (length xs - n) xs"

definition refreshBot ::
  "'w Env \<Rightarrow> Market list \<Rightarrow> BotState \<Rightarrow> (string \<rightharpoonup> number) \<times> 'w \<Rightarrow>
     (string + BotState) \<times> (string \<rightharpoonup> number) \<times> 'w" where
  "refreshBot env marketData bt st =
     (let (ref, w) = st
      in if tradingMode bt = Real then
           (case getRealAccountState env (b_id bt) w of
              (Inl message, w1) \<Rightarrow> (Inl message, ref, w1)
            | (Inr updatedPortfolio, w1) \<Rightarrow>
                (case getRealTradeHistory env (b_id bt) w1 of
                   (Inl message, w2) \<Rightarrow> (Inl message, ref, w2)
                 | (Inr updatedOrders, w2) \<Rightarrow>
                     (Inr (bt\<lparr>portfolio := updatedPortfolio,
                              valueHistory :=
                                lastN 300 (valueHistory bt @
                                  [\<lparr>vh_timestamp = Date_now env w2,
                                    vh_value = totalValue updatedPortfolio\<rparr>]),
                              orders := updatedOrders,
                              realizedPnl := sumPnl updatedOrders\<rparr>),
                      (if ref (b_id bt) = None
                       then ref(b_id bt \<mapsto> LIVE_BOT_INITIAL_BALANCE env) else ref),
                      w2)))
         else
           (let updatedPortfolio = refreshPaper marketData (portfolio bt)
            in (Inr (bt\<lparr>portfolio := updatedPortfolio,
                        valueHistory :=
                          lastN 300 (valueHistory bt @
                            [\<lparr>vh_timestamp = Date_now env w,
                              vh_value = totalValue updatedPortfolio\<rparr>])\<rparr>),
                ref, w)))"

fun refreshBots ::
  "'w Env \<Rightarrow> Market list \<Rightarrow> BotState list \<Rightarrow> (string \<rightharpoonup> number) \<times> 'w \<Rightarrow>
     (string + BotState) list \<times> (string \<rightharpoonup> number) \<times> 'w" where
  "refreshBots env marketData [] st = ([], st)"
| "refreshBots env marketData (bt # rest) st =
     (let (r, st1) = refreshBot env marketData bt st;
          (rs, st2) = refreshBots env marketData rest st1
      in (r # rs, st2))"

fun allFulfilled :: "(string + BotState) list \<Rightarrow> BotState list option" where
  "allFulfilled [] = Some []"
| "allFulfilled (Inl message # rs) = None"
| "allFulfilled (Inr b # rs) = (case allFulfilled rs of None \<Rightarrow> None | Some bs \<Rightarrow> Some (b # bs))"

text \<open>
  \<open>updatePortfolios\<close>, given the result of \<open>getMarketData\<close>. With no market data the
  callback returns at once. When a venue request of some agent throws, \<open>Promise.all\<close>
  rejects and \<open>setBots\<close> is not reached; what the other agents wrote to the reference
  stays written.
\<close>

definition updatePortfolios ::
  "'w Env \<Rightarrow> Market list \<Rightarrow> HookState \<times> 'w \<Rightarrow> HookState \<times> 'w" where
  "updatePortfolios env marketData st =
     (let (hs, w) = st
      in if marketData = [] then st
         else
           (let (rs, ref, w') = refreshBots env marketData (bots hs) (initialBalanceRef hs, w)
            in case allFulfilled rs of
                 None \<Rightarrow> (hs\<lparr>markets := marketData, initialBalanceRef := ref\<rparr>, w')
               | Some updatedBots \<Rightarrow>
                   (hs\<lparr>bots := updatedBots, markets := marketData,
                       initialBalanceRef := ref\<rparr>, w')))"

subsection \<open>Decision turn\<close>

text \<open>
  One agent's pass through \<open>runTradingTurn\<close>. The paper branch of the source is empty:
  a paper agent's validated decisions are logged and not executed. The flag \<open>isLoading\<close>
  is raised while the agent waits for its decisions and is lowered with the last update.
\<close>

definition botTurn ::
  "'w Env \<Rightarrow> (string \<rightharpoonup> SymbolPrecisionInfo) \<Rightarrow> Market list \<Rightarrow> BotState \<Rightarrow> 'w \<Rightarrow>
     BotState \<times> 'w" where
  "botTurn env symbolPrecisions mkts bt w =
     (let ((prompt, decisions), w1) = getDecision env bt mkts w;
          (notes0, validatedDecisions) =
            validateDecisions (leverageLimits env) bt (Date_now env w1) decisions;
          (updatedBotState, notes, w2) =
            (if tradingMode bt = Real
             then runLive env symbolPrecisions mkts bt validatedDecisions (bt, notes0, w1)
             else (bt, notes0, w1));
          newLog = \<lparr>l_timestamp = Date_now env w2, l_decisions = decisions,
                    l_prompt = prompt, l_notes = notes\<rparr>
      in (updatedBotState\<lparr>botLogs := take 50 (newLog # botLogs updatedBotState),
                          isLoading := False\<rparr>, w2))"

fun turnLoop ::
  "'w Env \<Rightarrow> (string \<rightharpoonup> SymbolPrecisionInfo) \<Rightarrow> Market list \<Rightarrow> BotState list \<Rightarrow>
     BotState list \<times> 'w \<Rightarrow> BotState list \<times> 'w" where
  "turnLoop env symbolPrecisions mkts [] st = st"
| "turnLoop env symbolPrecisions mkts (bt # rest) st =
     (if isPaused bt then turnLoop env symbolPrecisions mkts rest st
      else
        (let (current, w) = st;
             (bt', w') = botTurn env symbolPrecisions mkts bt w
         in turnLoop env symbolPrecisions mkts rest
              (map (\<lambda>b. if b_id b = b_id bt then bt' else b) current, w')))"

definition runTradingTurn ::
  "'w Env \<Rightarrow> (string \<rightharpoonup> SymbolPrecisionInfo) \<Rightarrow> HookState \<times> 'w \<Rightarrow> HookState \<times> 'w" where
  "runTradingTurn env symbolPrecisions st =
     (let (hs, w) = st;
          (current, w') = turnLoop env symbolPrecisions (markets hs) (bots hs) (bots hs, w)
      in (hs\<lparr>bots := current\<rparr>, w'))"

subsection \<open>The states the hook can be in\<close>

text \<open>
  The hook starts from \<open>initialize\<close>, on fresh agents or on a saved state that respects
  the two history bounds (a state this hook wrote), and then runs refresh ticks and
  decision turns in any order, on any market data; between two callbacks the outside world
  may change in any way.
\<close>

definition historiesBounded :: "BotState \<Rightarrow> bool" where
  "historiesBounded b = (length (botLogs b) \<le> 50 \<and> length (valueHistory b) \<le> 300)"

inductive reachable ::
  "'w Env \<Rightarrow> (string \<rightharpoonup> SymbolPrecisionInfo) \<Rightarrow> HookState \<times> 'w \<Rightarrow> bool"
  for env :: "'w Env" and symbolPrecisions :: "string \<rightharpoonup> SymbolPrecisionInfo" where
  fresh: "reachable env symbolPrecisions (initialize env botConfigs [] w)"
| resumed: "list_all historiesBounded savedBots \<Longrightarrow>
     reachable env symbolPrecisions (initialize env botConfigs savedBots w)"
| world: "reachable env symbolPrecisions (hs, w) \<Longrightarrow> reachable env symbolPrecisions (hs, w')"
| refresh: "reachable env symbolPrecisions st \<Longrightarrow>
     reachable env symbolPrecisions (updatePortfolios env marketData st)"
| turn: "reachable env symbolPrecisions st \<Longrightarrow>
     reachable env symbolPrecisions (runTradingTurn env symbolPrecisions st)"

section \<open>Concrete inputs\<close>

text \<open>
  A venue that accepts every request and records the orders it receives, a venue that
  refuses every request, a live agent with 80 dollars of free balance, one open position
  and a cooldown on one symbol, and a few decisions. The evaluations below run on them.
\<close>

definition demoPosition :: Position where
  "demoPosition =
     \<lparr>p_id = ''pos_1'', p_symbol = ''BTCUSDT'', p_type = OrderType_LONG,
      p_entryPrice = 40000, p_size = 100, p_leverage = 2, p_pnl = 7\<rparr>"

definition demoPortfolio :: Portfolio where
  "demoPortfolio = \<lparr>balance = 80, pnl = 7, totalValue = 187, positions = [demoPosition]\<rparr>"

definition demoBot :: BotState where
  "demoBot =
     \<lparr>b_id = ''bot_1'', b_name = ''Alpha'', b_prompt = ''trade'', tradingMode = Real,
      portfolio = demoPortfolio, orders = [], botLogs = [],
      valueHistory = [\<lparr>vh_timestamp = 0, vh_value = 187\<rparr>],
      isLoading = False, isPaused = False, realizedPnl = 0, tradeCount = 0, winRate = 0,
      symbolCooldowns = [''ETHUSDT'' \<mapsto> 2000000]\<rparr>"

definition demoMarkets :: "Market list" where
  "demoMarkets =
     [\<lparr>m_symbol = ''BTCUSDT'', m_price = 40000\<rparr>, \<lparr>m_symbol = ''ETHUSDT'', m_price = 2000\<rparr>]"

definition demoDecision :: "AiAction \<Rightarrow> string \<Rightarrow> number \<Rightarrow> number \<Rightarrow> AiDecision" where
  "demoDecision a symbol size0 lev =
     \<lparr>d_action = a, d_symbol = Some symbol, d_size = Some size0, d_leverage = Some lev,
      d_stopLoss = None, d_takeProfit = None, d_closePositionId = None,
      d_reasoning = ''because''\<rparr>"

definition demoClose :: "string \<Rightarrow> AiDecision" where
  "demoClose ident =
     \<lparr>d_action = CLOSE, d_symbol = None, d_size = None, d_leverage = None,
      d_stopLoss = None, d_takeProfit = None, d_closePositionId = Some ident,
      d_reasoning = ''because''\<rparr>"

definition demoShort :: Position where
  "demoShort =
     \<lparr>p_id = ''pos_2'', p_symbol = ''SOLUSDT'', p_type = OrderType_SHORT,
      p_entryPrice = 150, p_size = 50, p_leverage = 3, p_pnl = 1\<rparr>"

definition demoPaperBot :: BotState where
  "demoPaperBot =
     demoBot\<lparr>b_id := ''bot_2'', tradingMode := Paper,
             portfolio := demoPortfolio\<lparr>positions := [demoPosition, demoShort]\<rparr>\<rparr>"

definition demoTick :: "Market list" where
  "demoTick =
     [\<lparr>m_symbol = ''BTCUSDT'', m_price = 44000\<rparr>, \<lparr>m_symbol = ''ETHUSDT'', m_price = 2000\<rparr>]"

definition demoFleet :: HookState where
  "demoFleet =
     \<lparr>bots = [demoPaperBot, demoBot], markets = [],
      initialBalanceRef = [''bot_1'' \<mapsto> 1000, ''bot_2'' \<mapsto> 10000]\<rparr>"

definition demoConfig :: BotConfig where
  "demoConfig =
     \<lparr>c_id = ''bot_1'', c_name = ''Alpha'', c_prompt = ''trade'', c_mode = Real,
      c_isPaused = False\<rparr>"

definition acceptingVenue :: "OrderRequest list Env" where
  "acceptingVenue =
     \<lparr>LIVE_BOT_INITIAL_BALANCE = 1000, PAPER_BOT_INITIAL_BALANCE = 10000,
      leverageLimits = [''BTCUSDT'' \<mapsto> 20],
      Date_now = (\<lambda>w. 1000000),
      setLeverage = (\<lambda>symbol lev botId w. (None, w)),
      placeRealOrder = (\<lambda>req botId w. (None, w @ [req])),
      getRealAccountState = (\<lambda>botId w. (Inr (demoPortfolio\<lparr>balance := 60\<rparr>), w)),
      getRealTradeHistory = (\<lambda>botId w. (Inr [], w)),
      getDecision = (\<lambda>bt mkts w. ((''prompt'', [demoDecision LONG ''BTCUSDT'' 100 5]), w))\<rparr>"

definition refusingVenue :: "OrderRequest list Env" where
  "refusingVenue =
     \<lparr>LIVE_BOT_INITIAL_BALANCE = 1000, PAPER_BOT_INITIAL_BALANCE = 10000,
      leverageLimits = Map.empty,
      Date_now = (\<lambda>w. 1000000),
      setLeverage = (\<lambda>symbol lev botId w. (Some ''Network Error'', w)),
      placeRealOrder = (\<lambda>req botId w. (Some ''ReduceOnly Order is rejected.'', w @ [req])),
      getRealAccountState = (\<lambda>botId w. (Inl ''Exchange sync timeout'', w)),
      getRealTradeHistory = (\<lambda>botId w. (Inl ''Exchange sync timeout'', w)),
      getDecision = (\<lambda>bt mkts w. ((''prompt'', []), w))\<rparr>"

section \<open>Properties\<close>

subsection \<open>Validation\<close>

lemma validateDecision_Some:
  "snd (validateDecision limits bt now d) = Some (x, l) \<Longrightarrow> x = d"
  by (auto simp: validateDecision_def split: if_splits option.splits prod.splits)

lemma validated_iff:
  "(d, l) \<in> set (snd (validateDecisions limits bt now ds)) \<longleftrightarrow>
     d \<in> set ds \<and> snd (validateDecision limits bt now d) = Some (d, l)"
proof (induction ds)
  case Nil
  then show ?case by simp
next
  case (Cons a ds)
  show ?case
  proof (cases "snd (validateDecision limits bt now a)")
    case None
    then show ?thesis using Cons
      by (auto simp: split_def Let_def)
  next
    case (Some v)
    obtain x k where v: "v = (x, k)" by (cases v)
    with Some have "x = a" using validateDecision_Some by blast
    with Some v show ?thesis using Cons
      by (auto simp: split_def Let_def)
  qed
qed

lemma notes_iff:
  "n \<in> set (fst (validateDecisions limits bt now ds)) \<longleftrightarrow>
     (\<exists>d \<in> set ds. n \<in> set (fst (validateDecision limits bt now d)))"
  by (induction ds) (auto simp: split_def Let_def)

text \<open>
  C2, as the code has it. A directional decision whose size is present, not zero and below
  the minimum of 50 is rejected with a note and is not among the validated decisions, so
  the execution loop never sees it. A decision that is not directional passes validation
  with no note. The test \<open>decision.size && ...\<close> lets a directional decision with no
  size, or with size zero, through this check.
\<close>

theorem minimum_size_rejected:
  "(isDirectional (d_action d) \<and> d_size d = Some s \<and> s \<noteq> 0 \<and> s < MINIMUM_TRADE_SIZE_USD \<longrightarrow>
      validateDecision limits bt now d =
        ([RejectedBelowMinimum (d_action d) (d_symbol d) s], None)
      \<and> (d \<in> set ds \<longrightarrow>
           RejectedBelowMinimum (d_action d) (d_symbol d) s
             \<in> set (fst (validateDecisions limits bt now ds))
           \<and> (\<forall>l. (d, l) \<notin> set (snd (validateDecisions limits bt now ds)))))
   \<and> (\<not> isDirectional (d_action d) \<longrightarrow>
        validateDecision limits bt now d = ([], Some (d, requestedLeverage d)))"
proof (intro conjI impI)
  assume h: "isDirectional (d_action d) \<and> d_size d = Some s \<and> s \<noteq> 0 \<and> s < MINIMUM_TRADE_SIZE_USD"
  then show r: "validateDecision limits bt now d =
        ([RejectedBelowMinimum (d_action d) (d_symbol d) s], None)"
    by (simp add: validateDecision_def belowMinimum_def)
  assume "d \<in> set ds"
  with r show "RejectedBelowMinimum (d_action d) (d_symbol d) s
             \<in> set (fst (validateDecisions limits bt now ds))"
    by (subst notes_iff) (rule bexI [of _ d], simp_all)
  from r show "\<forall>l. (d, l) \<notin> set (snd (validateDecisions limits bt now ds))"
    by (simp add: validated_iff)
next
  assume "\<not> isDirectional (d_action d)"
  then show "validateDecision limits bt now d = ([], Some (d, requestedLeverage d))"
    by (auto simp: validateDecision_def belowMinimum_def cooldownLeft_def adjustLeverage_def
      Let_def split: option.splits)
qed

text \<open>
  C2, as the claim states it, fails for a size of zero: the decision is directional, zero
  is below the minimum, and validation returns it among the validated decisions with no
  note.
\<close>

theorem zero_size_not_rejected:
  "isDirectional LONG \<and> (0::rat) < MINIMUM_TRADE_SIZE_USD
   \<and> validateDecisions Map.empty demoBot 1000000 [demoDecision LONG ''BTCUSDT'' 0 5]
       = ([], [(demoDecision LONG ''BTCUSDT'' 0 5, 5)])"
  by (simp add: isDirectional_def MINIMUM_TRADE_SIZE_USD_def validateDecision_def
      belowMinimum_def cooldownLeft_def adjustLeverage_def requestedLeverage_def
      maxLeverageOf_def demoDecision_def demoBot_def)

theorem minimum_size_rejected_witness:
  "validateDecisions Map.empty demoBot 1000000
       [demoDecision LONG ''BTCUSDT'' 10 5, demoClose ''pos_1'']
     = ([RejectedBelowMinimum LONG (Some ''BTCUSDT'') 10], [(demoClose ''pos_1'', 1)])
   \<and> validateDecision Map.empty demoBot 1000000 (demoDecision LONG ''BTCUSDT'' 10 5)
     = ([RejectedBelowMinimum LONG (Some ''BTCUSDT'') 10], None)
   \<and> validateDecision Map.empty demoBot 1000000 (demoClose ''pos_1'')
     = ([], Some (demoClose ''pos_1'', 1))"
  using minimum_size_rejected [of "demoDecision LONG ''BTCUSDT'' 10 5" 10 Map.empty demoBot 1000000 "[]"]
    minimum_size_rejected [of "demoClose ''pos_1''" 0 Map.empty demoBot 1000000 "[]"]
  by (simp add: isDirectional_def MINIMUM_TRADE_SIZE_USD_def demoDecision_def demoClose_def
      requestedLeverage_def)


text \<open>
  C3. A directional decision on a symbol whose cooldown entry lies after the clock reading
  is rejected: it is not among the validated decisions, and when the minimum-size check
  has not rejected it before, the note is the cooldown note with the remaining minutes,
  \<open>(cooldownEndTime - now) / 60000\<close>. With no entry for the symbol, or an entry that is
  not after the clock reading, the cooldown check rejects nothing: no cooldown note is
  written, and a decision that passed the minimum-size check is validated. (The clock
  reading is not negative; the source treats an entry of zero as no entry.)
\<close>

theorem cooldown_rejects:
  assumes "isDirectional (d_action d)" and "d_symbol d = Some symbol" and "symbol \<noteq> []"
  shows "(symbolCooldowns bt symbol = Some e \<and> now < e \<and> 0 \<le> now \<longrightarrow>
            snd (validateDecision limits bt now d) = None
            \<and> (\<forall>l. (d, l) \<notin> set (snd (validateDecisions limits bt now ds)))
            \<and> (\<not> belowMinimum d \<longrightarrow>
                  validateDecision limits bt now d =
                    ([RejectedCooldown (d_action d) symbol (num_div (num_sub e now) 60000)],
                     None)))
       \<and> (symbolCooldowns bt symbol = None \<or> (symbolCooldowns bt symbol = Some e \<and> e \<le> now) \<longrightarrow>
            cooldownLeft bt now d = None
            \<and> (\<forall>a s m. RejectedCooldown a s m \<notin> set (fst (validateDecision limits bt now d)))
            \<and> (\<not> belowMinimum d \<longrightarrow> snd (validateDecision limits bt now d) \<noteq> None))"
proof (intro conjI impI)
  assume h: "symbolCooldowns bt symbol = Some e \<and> now < e \<and> 0 \<le> now"
  then have e: "e \<noteq> 0" by auto
  with h assms have c: "cooldownLeft bt now d = Some (symbol, num_div (num_sub e now) 60000)"
    by (simp add: cooldownLeft_def)
  then show r: "snd (validateDecision limits bt now d) = None"
    by (simp add: validateDecision_def split: option.splits)
  then show "\<forall>l. (d, l) \<notin> set (snd (validateDecisions limits bt now ds))"
    by (simp add: validated_iff)
  assume "\<not> belowMinimum d"
  with c show "validateDecision limits bt now d =
      ([RejectedCooldown (d_action d) symbol (num_div (num_sub e now) 60000)], None)"
    by (simp add: validateDecision_def)
next
  assume h: "symbolCooldowns bt symbol = None \<or> (symbolCooldowns bt symbol = Some e \<and> e \<le> now)"
  with assms show c: "cooldownLeft bt now d = None"
    by (auto simp: cooldownLeft_def)
  then show "\<forall>a s m. RejectedCooldown a s m \<notin> set (fst (validateDecision limits bt now d))"
    by (auto simp: validateDecision_def adjustLeverage_def Let_def
        split: option.splits if_splits)
  assume "\<not> belowMinimum d"
  with c show "snd (validateDecision limits bt now d) \<noteq> None"
    by (simp add: validateDecision_def split_def Let_def)
qed

theorem cooldown_rejects_witness:
  "validateDecision Map.empty demoBot 1400000 (demoDecision SHORT ''ETHUSDT'' 100 5)
     = ([RejectedCooldown SHORT ''ETHUSDT'' (num_div (num_sub 2000000 1400000) 60000)], None)
   \<and> num_div (num_sub 2000000 1400000) 60000 = 10
   \<and> (\<forall>l. (demoDecision SHORT ''ETHUSDT'' 100 5, l)
          \<notin> set (snd (validateDecisions Map.empty demoBot 1400000
                          [demoDecision SHORT ''ETHUSDT'' 100 5])))
   \<and> snd (validateDecision Map.empty demoBot 2000000 (demoDecision SHORT ''ETHUSDT'' 100 5))
     \<noteq> None
   \<and> snd (validateDecision Map.empty demoBot 1400000 (demoDecision SHORT ''BTCUSDT'' 100 5))
     \<noteq> None"
proof -
  let ?dE = "demoDecision SHORT ''ETHUSDT'' 100 5"
  let ?dB = "demoDecision SHORT ''BTCUSDT'' 100 5"
  have dE: "isDirectional (d_action ?dE)" "d_symbol ?dE = Some ''ETHUSDT''"
      "\<not> belowMinimum ?dE" "d_action ?dE = SHORT"
    by (simp_all add: isDirectional_def demoDecision_def belowMinimum_def
        MINIMUM_TRADE_SIZE_USD_def)
  have dB: "isDirectional (d_action ?dB)" "d_symbol ?dB = Some ''BTCUSDT''"
      "\<not> belowMinimum ?dB"
    by (simp_all add: isDirectional_def demoDecision_def belowMinimum_def
        MINIMUM_TRADE_SIZE_USD_def)
  have ne: "''ETHUSDT'' \<noteq> []" "''BTCUSDT'' \<noteq> []"
    by simp_all
  have n: "num_div (num_sub 2000000 1400000) 60000 = 10"
    by code_simp
  have h1: "symbolCooldowns demoBot ''ETHUSDT'' = Some 2000000 \<and> (1400000::rat) < 2000000
      \<and> (0::rat) \<le> 1400000"
    by (simp add: demoBot_def)
  have h2: "symbolCooldowns demoBot ''ETHUSDT'' = None
      \<or> (symbolCooldowns demoBot ''ETHUSDT'' = Some 2000000 \<and> (2000000::rat) \<le> 2000000)"
    by (simp add: demoBot_def)
  have h3: "symbolCooldowns demoBot ''BTCUSDT'' = None
      \<or> (symbolCooldowns demoBot ''BTCUSDT'' = Some 0 \<and> (0::rat) \<le> 1400000)"
    by (simp add: demoBot_def)
  note a = cooldown_rejects [OF dE(1) dE(2) ne(1), where bt = demoBot and e = 2000000
      and now = 1400000 and limits = Map.empty and ds = "[?dE]", THEN conjunct1, rule_format, OF h1]
  note b = cooldown_rejects [OF dE(1) dE(2) ne(1), where bt = demoBot and e = 2000000
      and now = 2000000 and limits = Map.empty and ds = "[]", THEN conjunct2, rule_format, OF h2]
  note c = cooldown_rejects [OF dB(1) dB(2) ne(2), where bt = demoBot and e = 0
      and now = 1400000 and limits = Map.empty and ds = "[]", THEN conjunct2, rule_format, OF h3]
  from a dE(3) have a1: "validateDecision Map.empty demoBot 1400000 ?dE =
      ([RejectedCooldown (d_action ?dE) ''ETHUSDT'' (num_div (num_sub 2000000 1400000) 60000)],
       None)"
    by blast
  from a have a2: "\<forall>l. (?dE, l) \<notin> set (snd (validateDecisions Map.empty demoBot 1400000 [?dE]))"
    by blast
  from b dE(3) have b1: "snd (validateDecision Map.empty demoBot 2000000 ?dE) \<noteq> None"
    by blast
  from c dB(3) have c1: "snd (validateDecision Map.empty demoBot 1400000 ?dB) \<noteq> None"
    by blast
  from a1 a2 b1 c1 n dE(4) show ?thesis
    by (simp only: simp_thms)
qed


lemma adjustLeverage_directional:
  "isDirectional (d_action d) \<Longrightarrow> d_symbol d = Some symbol \<Longrightarrow> symbol \<noteq> [] \<Longrightarrow>
   adjustLeverage limits d =
     (if maxLeverageOf limits symbol < requestedLeverage d
      then ([LeverageAdjusted symbol (requestedLeverage d) (maxLeverageOf limits symbol)],
            maxLeverageOf limits symbol)
      else ([], requestedLeverage d))"
  by (simp add: adjustLeverage_def Let_def)

lemma rejection_ignores_leverage:
  "snd (validateDecision limits bt now (d\<lparr>d_leverage := l\<rparr>)) = None \<longleftrightarrow>
   snd (validateDecision limits bt now d) = None"
  by (auto simp: validateDecision_def belowMinimum_def cooldownLeft_def split_def Let_def
      split: option.splits if_splits)

text \<open>
  C4. For a directional decision on a symbol that the two earlier checks have not
  rejected, validation keeps the decision: when the requested leverage
  (\<open>decision.leverage || 1\<close>) exceeds the symbol's maximum, the effective leverage is the
  maximum and one note records the adjustment; otherwise the requested leverage stands and
  no note is written. Whether a decision is rejected does not depend on the leverage it
  requests. Every validated directional decision on a symbol carries an effective
  leverage of at most the symbol's maximum, and the maximum of a symbol that the leverage
  table does not know is 25.
\<close>

theorem leverage_clamped:
  assumes "isDirectional (d_action d)" and "d_symbol d = Some symbol" and "symbol \<noteq> []"
  shows "(\<not> belowMinimum d \<and> cooldownLeft bt now d = None \<longrightarrow>
            validateDecision limits bt now d =
              (if maxLeverageOf limits symbol < requestedLeverage d
               then ([LeverageAdjusted symbol (requestedLeverage d) (maxLeverageOf limits symbol)],
                     Some (d, maxLeverageOf limits symbol))
               else ([], Some (d, requestedLeverage d))))
       \<and> (snd (validateDecision limits bt now (d\<lparr>d_leverage := l\<rparr>)) = None \<longleftrightarrow>
            snd (validateDecision limits bt now d) = None)
       \<and> (\<forall>k. (d, k) \<in> set (snd (validateDecisions limits bt now ds)) \<longrightarrow>
                k \<le> maxLeverageOf limits symbol)
       \<and> (limits symbol = None \<longrightarrow> maxLeverageOf limits symbol = 25)"
proof (intro conjI impI allI)
  assume "\<not> belowMinimum d \<and> cooldownLeft bt now d = None"
  then show "validateDecision limits bt now d =
      (if maxLeverageOf limits symbol < requestedLeverage d
       then ([LeverageAdjusted symbol (requestedLeverage d) (maxLeverageOf limits symbol)],
             Some (d, maxLeverageOf limits symbol))
       else ([], Some (d, requestedLeverage d)))"
    by (simp add: validateDecision_def adjustLeverage_directional [OF assms])
next
  show "snd (validateDecision limits bt now (d\<lparr>d_leverage := l\<rparr>)) = None \<longleftrightarrow>
      snd (validateDecision limits bt now d) = None"
    by (rule rejection_ignores_leverage)
next
  fix k
  assume "(d, k) \<in> set (snd (validateDecisions limits bt now ds))"
  then have "snd (validateDecision limits bt now d) = Some (d, k)"
    by (simp add: validated_iff)
  then show "k \<le> maxLeverageOf limits symbol"
    by (auto simp: validateDecision_def adjustLeverage_directional [OF assms]
        split: if_splits option.splits)
next
  assume "limits symbol = None"
  then show "maxLeverageOf limits symbol = 25"
    by (simp add: maxLeverageOf_def)
qed

theorem leverage_clamped_witness:
  "validateDecision [''BTCUSDT'' \<mapsto> 20] demoBot 1400000 (demoDecision LONG ''BTCUSDT'' 100 50)
     = ([LeverageAdjusted ''BTCUSDT'' 50 20], Some (demoDecision LONG ''BTCUSDT'' 100 50, 20))
   \<and> validateDecision Map.empty demoBot 1400000 (demoDecision LONG ''BTCUSDT'' 100 50)
     = ([LeverageAdjusted ''BTCUSDT'' 50 25], Some (demoDecision LONG ''BTCUSDT'' 100 50, 25))
   \<and> validateDecision Map.empty demoBot 1400000 (demoDecision LONG ''BTCUSDT'' 100 5)
     = ([], Some (demoDecision LONG ''BTCUSDT'' 100 5, 5))"
proof -
  let ?d = "demoDecision LONG ''BTCUSDT'' 100 50"
  let ?d5 = "demoDecision LONG ''BTCUSDT'' 100 5"
  have d: "isDirectional (d_action ?d)" "d_symbol ?d = Some ''BTCUSDT''"
      "\<not> belowMinimum ?d \<and> cooldownLeft demoBot 1400000 ?d = None"
      "requestedLeverage ?d = 50"
    by (simp_all add: isDirectional_def demoDecision_def belowMinimum_def
        MINIMUM_TRADE_SIZE_USD_def cooldownLeft_def demoBot_def requestedLeverage_def)
  have d5: "isDirectional (d_action ?d5)" "d_symbol ?d5 = Some ''BTCUSDT''"
      "\<not> belowMinimum ?d5 \<and> cooldownLeft demoBot 1400000 ?d5 = None"
      "requestedLeverage ?d5 = 5"
    by (simp_all add: isDirectional_def demoDecision_def belowMinimum_def
        MINIMUM_TRADE_SIZE_USD_def cooldownLeft_def demoBot_def requestedLeverage_def)
  have ne: "''BTCUSDT'' \<noteq> []"
    by simp
  have m: "maxLeverageOf [''BTCUSDT'' \<mapsto> 20] ''BTCUSDT'' = 20"
      "maxLeverageOf Map.empty ''BTCUSDT'' = 25"
    by (simp_all add: maxLeverageOf_def)
  note a = leverage_clamped [OF d(1) d(2) ne, where bt = demoBot and now = 1400000
      and limits = "[''BTCUSDT'' \<mapsto> 20]" and ds = "[]" and l = None,
      THEN conjunct1, rule_format, OF d(3)]
  note b = leverage_clamped [OF d(1) d(2) ne, where bt = demoBot and now = 1400000
      and limits = Map.empty and ds = "[]" and l = None,
      THEN conjunct1, rule_format, OF d(3)]
  note c = leverage_clamped [OF d5(1) d5(2) ne, where bt = demoBot and now = 1400000
      and limits = Map.empty and ds = "[]" and l = None,
      THEN conjunct1, rule_format, OF d5(3)]
  from a b c show ?thesis
    by (simp add: m d(4) d5(4))
qed


subsection \<open>Live execution\<close>

lemma placeOpenOrders_state:
  "fst (placeOpenOrders env sp bt d lev symbol tradeSize market (ubs, notes, w)) = ubs"
  by (simp add: placeOpenOrders_def Let_def split_def split: option.splits prod.splits)

lemma liveOpen_state:
  "fst (liveOpen env sp bt d lev symbol size0 market (ubs, notes, w)) = ubs"
  by (simp add: liveOpen_def Let_def split_def placeOpenOrders_state)

lemma liveClose_portfolio:
  "portfolio (fst (liveClose env sp bt d pid (ubs, notes, w))) = portfolio ubs"
  by (simp add: liveClose_def Let_def split_def split: option.splits prod.splits)

lemma executeLiveDecision_portfolio:
  "portfolio (fst (executeLiveDecision env sp mkts bt va st)) = portfolio (fst st)"
proof -
  obtain ubs ns w where st: "st = (ubs, ns, w)"
    by (cases st) auto
  obtain d lev where va: "va = (d, lev)"
    by (cases va)
  show ?thesis
    unfolding st va
    by (simp add: executeLiveDecision_def liveOpen_state liveClose_portfolio
        split: option.splits)
qed

lemma runLive_portfolio:
  "portfolio (fst (runLive env sp mkts bt vas st)) = portfolio (fst st)"
  by (induction vas arbitrary: st) (simp_all add: executeLiveDecision_portfolio)

lemma runLive_append:
  "runLive env sp mkts bt (pre @ post) st =
     runLive env sp mkts bt post (runLive env sp mkts bt pre st)"
  by (induction pre arbitrary: st) simp_all

lemma demo_quantity:
  "getAdjustedQuantity Map.empty ''BTCUSDT'' (num_div (num_mul 80 5) 40000) = to_double (1 / 100)
   \<and> \<not> to_double (1 / 100) \<le> 0"
  by code_simp

lemma demo_close_quantity:
  "getAdjustedQuantity Map.empty ''BTCUSDT'' \<bar>num_div (num_mul 100 2) 40000\<bar> = to_double (1 / 200)
   \<and> 0 < to_double (1 / 200)"
  by code_simp

lemma demo_message:
  "String_includes ''ReduceOnly Order is rejected.'' ''ReduceOnly Order is rejected''"
  by simp

text \<open>
  The open branch takes a directional decision whose symbol is quoted in the market list
  and whose size is not zero. The loop passes over any other directional decision: it
  writes no note and calls no service.
\<close>

lemma directional_not_open_skipped:
  "isDirectional (d_action d) \<Longrightarrow> \<not> opensPosition mkts d \<Longrightarrow>
   executeLiveDecision env sp mkts bt (d, lev) st = st"
  by (auto simp: executeLiveDecision_def isDirectional_def)

text \<open>
  C1. A directional decision that enters the open branch of the live loop (its symbol is
  quoted in the market list and its size is not zero) is sized in stages. With an
  available balance below the minimum of 50 the order is rejected with one note: no
  adjustment note is written and the venue is not called. Otherwise a size above the
  available balance is replaced by the available balance, the adjustment is noted, and
  the order goes on to the venue with the clamped size; a size within the balance but
  below the minimum is rejected with a note; any other size goes on unchanged. The
  re-check of the size against the minimum follows the clamp; a clamped size equals the
  available balance, which is at least the minimum at that point.
\<close>

theorem live_sizing_staged:
  assumes "isDirectional (d_action d)" and "findMarket mkts d = Some market"
    and "d_size d = Some size0" and "size0 \<noteq> 0"
    and "d_symbol d = Some symbol" and "symbol \<noteq> []"
  shows "executeLiveDecision env sp mkts bt (d, lev) (ubs, notes, w) =
     (if balance (portfolio ubs) < MINIMUM_TRADE_SIZE_USD then
        (ubs, notes @ [RejectedBalance (d_action d) symbol (balance (portfolio ubs))], w)
      else if balance (portfolio ubs) < size0 then
        placeOpenOrders env sp bt d lev symbol (balance (portfolio ubs)) market
          (ubs, notes @ [SizeAdjusted symbol size0 (balance (portfolio ubs))], w)
      else if size0 < MINIMUM_TRADE_SIZE_USD then
        (ubs, notes @ [RejectedAdjustedSize (d_action d) symbol size0], w)
      else placeOpenOrders env sp bt d lev symbol size0 market (ubs, notes, w))"
  using assms
  by (simp add: executeLiveDecision_def opensPosition_def truthyNumber_def truthyString_def
      liveOpen_def Let_def)


theorem live_sizing_staged_witness:
  "executeLiveDecision acceptingVenue Map.empty demoMarkets demoBot
       (demoDecision LONG ''BTCUSDT'' 100 5, 5) (demoBot, [], [])
     = (demoBot,
        [SizeAdjusted ''BTCUSDT'' 100 80, OpenedPosition LONG ''BTCUSDT''],
        [\<lparr>r_symbol = ''BTCUSDT'', r_side = BUY, r_type = MARKET,
          r_quantity = to_double (1 / 100), r_stopPrice = None, r_reduceOnly = False\<rparr>])
   \<and> executeLiveDecision acceptingVenue Map.empty demoMarkets demoBot
       (demoDecision LONG ''BTCUSDT'' 100 5, 5)
       (demoBot\<lparr>portfolio := demoPortfolio\<lparr>balance := 30\<rparr>\<rparr>, [], [])
     = (demoBot\<lparr>portfolio := demoPortfolio\<lparr>balance := 30\<rparr>\<rparr>,
        [RejectedBalance LONG ''BTCUSDT'' 30], [])"
proof -
  let ?d = "demoDecision LONG ''BTCUSDT'' 100 5"
  let ?m = "\<lparr>m_symbol = ''BTCUSDT'', m_price = 40000\<rparr>"
  have d: "isDirectional (d_action ?d)" "findMarket demoMarkets ?d = Some ?m"
      "d_size ?d = Some 100" "(100::rat) \<noteq> 0" "d_symbol ?d = Some ''BTCUSDT''"
      "''BTCUSDT'' \<noteq> []"
    by (simp_all add: isDirectional_def demoDecision_def findMarket_def demoMarkets_def)
  note b = live_sizing_staged [OF d, of acceptingVenue Map.empty demoBot 5 demoBot "[]" "[]"]
  note a = live_sizing_staged [OF d, of acceptingVenue Map.empty demoBot 5
      "demoBot\<lparr>portfolio := demoPortfolio\<lparr>balance := 30\<rparr>\<rparr>" "[]" "[]"]
  have p: "placeOpenOrders acceptingVenue Map.empty demoBot ?d 5 ''BTCUSDT'' 80 ?m
      (demoBot, [SizeAdjusted ''BTCUSDT'' 100 80], [])
     = (demoBot, [SizeAdjusted ''BTCUSDT'' 100 80, OpenedPosition LONG ''BTCUSDT''],
        [\<lparr>r_symbol = ''BTCUSDT'', r_side = BUY, r_type = MARKET,
          r_quantity = to_double (1 / 100), r_stopPrice = None, r_reduceOnly = False\<rparr>])"
    using demo_quantity
    by (simp add: placeOpenOrders_def acceptingVenue_def protectiveOrders_def
        demoDecision_def Let_def)
  have bal: "balance (portfolio demoBot) = 80"
    by (simp add: demoBot_def demoPortfolio_def)
  from a b p bal show ?thesis
    by (simp add: MINIMUM_TRADE_SIZE_USD_def demoDecision_def)
qed

text \<open>
  C5, as the code has it. A CLOSE decision whose target id resolves to no position of the
  agent leaves the agent's state, the notes and the venue as they are: no request is
  sent and no note is written. When the position exists and the venue refuses the
  reduce-only market order with a message that contains \<open>ReduceOnly Order is rejected\<close>,
  the agent's state is unchanged as well (no cooldown starts) and one note records that
  the position no longer exists on the exchange.
\<close>

theorem close_without_position:
  assumes "d_action d = CLOSE" and "d_closePositionId d = Some pid" and "pid \<noteq> []"
  shows "(find (\<lambda>p. p_id p = pid) (positions (portfolio bt)) = None \<longrightarrow>
            executeLiveDecision env sp mkts bt (d, lev) st = st)
       \<and> (find (\<lambda>p. p_id p = pid) (positions (portfolio bt)) = Some pos
            \<and> 0 < getAdjustedQuantity sp (p_symbol pos)
                    \<bar>num_div (num_mul (p_size pos) (p_leverage pos)) (p_entryPrice pos)\<bar>
            \<and> placeRealOrder env
                 \<lparr>r_symbol = p_symbol pos,
                  r_side = (if p_type pos = OrderType_LONG then SELL else BUY),
                  r_type = MARKET,
                  r_quantity = getAdjustedQuantity sp (p_symbol pos)
                    \<bar>num_div (num_mul (p_size pos) (p_leverage pos)) (p_entryPrice pos)\<bar>,
                  r_stopPrice = None, r_reduceOnly = True\<rparr>
                 (b_id bt) w = (Some message, w1)
            \<and> String_includes message ''ReduceOnly Order is rejected'' \<longrightarrow>
            executeLiveDecision env sp mkts bt (d, lev) (ubs, ns, w) =
              (ubs, ns @ [PositionGone (Some pid)], w1))"
proof (intro conjI impI)
  have nd: "\<not> opensPosition mkts d"
    using assms by (simp add: opensPosition_def isDirectional_def)
  {
    assume "find (\<lambda>p. p_id p = pid) (positions (portfolio bt)) = None"
    then show "executeLiveDecision env sp mkts bt (d, lev) st = st"
      using assms nd
      by (simp add: executeLiveDecision_def truthyString_def liveClose_def split_def)
  }
  {
    assume h: "find (\<lambda>p. p_id p = pid) (positions (portfolio bt)) = Some pos
            \<and> 0 < getAdjustedQuantity sp (p_symbol pos)
                    \<bar>num_div (num_mul (p_size pos) (p_leverage pos)) (p_entryPrice pos)\<bar>
            \<and> placeRealOrder env
                 \<lparr>r_symbol = p_symbol pos,
                  r_side = (if p_type pos = OrderType_LONG then SELL else BUY),
                  r_type = MARKET,
                  r_quantity = getAdjustedQuantity sp (p_symbol pos)
                    \<bar>num_div (num_mul (p_size pos) (p_leverage pos)) (p_entryPrice pos)\<bar>,
                  r_stopPrice = None, r_reduceOnly = True\<rparr>
                 (b_id bt) w = (Some message, w1)
            \<and> String_includes message ''ReduceOnly Order is rejected''"
    then have "message \<noteq> []"
      by auto
    with h show "executeLiveDecision env sp mkts bt (d, lev) (ubs, ns, w) =
              (ubs, ns @ [PositionGone (Some pid)], w1)"
      using assms nd
      by (simp add: executeLiveDecision_def truthyString_def liveClose_def Let_def
          catchNote_def)
  }
qed

text \<open>
  C5, as the claim states it, asks for a benign note when the target id resolves to no
  position, and for the same treatment of the venue's refusal. The unresolved id writes no
  note; the refusal writes one.
\<close>

theorem close_without_position_no_note:
  "d_action (demoClose ''pos_9'') = CLOSE
   \<and> find (\<lambda>p. p_id p = ''pos_9'') (positions (portfolio demoBot)) = None
   \<and> fst (snd (executeLiveDecision acceptingVenue Map.empty demoMarkets demoBot
                  (demoClose ''pos_9'', 1) (demoBot, [], []))) = []
   \<and> fst (snd (executeLiveDecision refusingVenue Map.empty demoMarkets demoBot
                  (demoClose ''pos_1'', 1) (demoBot, [], [])))
       = [PositionGone (Some ''pos_1'')]"
  using demo_close_quantity demo_message
  by (simp add: executeLiveDecision_def opensPosition_def isDirectional_def demoClose_def
      truthyString_def liveClose_def demoBot_def demoPortfolio_def demoPosition_def
      refusingVenue_def catchNote_def Let_def)

theorem close_without_position_witness:
  "executeLiveDecision acceptingVenue Map.empty demoMarkets demoBot
       (demoClose ''pos_9'', 1) (demoBot, [], []) = (demoBot, [], [])
   \<and> executeLiveDecision refusingVenue Map.empty demoMarkets demoBot
       (demoClose ''pos_1'', 1) (demoBot, [], [])
     = (demoBot, [PositionGone (Some ''pos_1'')],
        [\<lparr>r_symbol = ''BTCUSDT'', r_side = SELL, r_type = MARKET,
          r_quantity = to_double (1 / 200), r_stopPrice = None, r_reduceOnly = True\<rparr>])"
proof -
  have d9: "d_action (demoClose ''pos_9'') = CLOSE"
      "d_closePositionId (demoClose ''pos_9'') = Some ''pos_9''" "''pos_9'' \<noteq> []"
    by (simp_all add: demoClose_def)
  have d1: "d_action (demoClose ''pos_1'') = CLOSE"
      "d_closePositionId (demoClose ''pos_1'') = Some ''pos_1''" "''pos_1'' \<noteq> []"
    by (simp_all add: demoClose_def)
  have f9: "find (\<lambda>p. p_id p = ''pos_9'') (positions (portfolio demoBot)) = None"
    by (simp add: demoBot_def demoPortfolio_def demoPosition_def)
  have f1: "find (\<lambda>p. p_id p = ''pos_1'') (positions (portfolio demoBot)) = Some demoPosition
      \<and> 0 < getAdjustedQuantity Map.empty (p_symbol demoPosition)
               \<bar>num_div (num_mul (p_size demoPosition) (p_leverage demoPosition))
                  (p_entryPrice demoPosition)\<bar>
      \<and> placeRealOrder refusingVenue
           \<lparr>r_symbol = p_symbol demoPosition,
            r_side = (if p_type demoPosition = OrderType_LONG then SELL else BUY),
            r_type = MARKET,
            r_quantity = getAdjustedQuantity Map.empty (p_symbol demoPosition)
               \<bar>num_div (num_mul (p_size demoPosition) (p_leverage demoPosition))
                  (p_entryPrice demoPosition)\<bar>,
            r_stopPrice = None, r_reduceOnly = True\<rparr>
           (b_id demoBot) []
         = (Some ''ReduceOnly Order is rejected.'',
            [\<lparr>r_symbol = ''BTCUSDT'', r_side = SELL, r_type = MARKET,
              r_quantity = to_double (1 / 200), r_stopPrice = None, r_reduceOnly = True\<rparr>])
      \<and> String_includes ''ReduceOnly Order is rejected.'' ''ReduceOnly Order is rejected''"
    using demo_close_quantity demo_message
    by (simp add: demoBot_def demoPortfolio_def demoPosition_def refusingVenue_def)
  note a = close_without_position [OF d9, where bt = demoBot and env = acceptingVenue
      and sp = Map.empty and mkts = demoMarkets and lev = 1 and st = "(demoBot, [], [])",
      THEN conjunct1, rule_format, OF f9]
  note b = close_without_position [OF d1, where bt = demoBot and env = refusingVenue
      and sp = Map.empty and mkts = demoMarkets and lev = 1 and ubs = demoBot and ns = "[]",
      THEN conjunct2, rule_format, OF f1]
  from a b show ?thesis
    by simp
qed

text \<open>
  C10. No step of the live loop changes the portfolio of the agent's state: not a
  rejected order, not an order the venue accepts, not a close. So in a turn that runs the
  validated decisions \<open>pre @ va # post\<close>, the decision \<open>va\<close> is executed from a state
  whose balance is the balance the agent had when the turn began, whatever the decisions
  of \<open>pre\<close> did, and the portfolio after the turn is the portfolio before it.
\<close>

theorem live_turn_keeps_balance:
  "portfolio (fst (executeLiveDecision env sp mkts bt va st)) = portfolio (fst st)
   \<and> runLive env sp mkts bt (pre @ va # post) (bt, notes, w) =
       runLive env sp mkts bt post
         (executeLiveDecision env sp mkts bt va
            (runLive env sp mkts bt pre (bt, notes, w)))
   \<and> balance (portfolio (fst (runLive env sp mkts bt pre (bt, notes, w)))) =
       balance (portfolio bt)
   \<and> portfolio (fst (runLive env sp mkts bt (pre @ va # post) (bt, notes, w))) =
       portfolio bt
   \<and> portfolio (fst (botTurn env sp mkts bt w)) = portfolio bt"
proof (intro conjI)
  show "portfolio (fst (executeLiveDecision env sp mkts bt va st)) = portfolio (fst st)"
    by (rule executeLiveDecision_portfolio)
  show "runLive env sp mkts bt (pre @ va # post) (bt, notes, w) =
       runLive env sp mkts bt post
         (executeLiveDecision env sp mkts bt va
            (runLive env sp mkts bt pre (bt, notes, w)))"
    by (simp add: runLive_append)
  show "balance (portfolio (fst (runLive env sp mkts bt pre (bt, notes, w)))) =
       balance (portfolio bt)"
    by (simp add: runLive_portfolio)
  show "portfolio (fst (runLive env sp mkts bt (pre @ va # post) (bt, notes, w))) =
       portfolio bt"
    by (simp add: runLive_portfolio)
  show "portfolio (fst (botTurn env sp mkts bt w)) = portfolio bt"
    by (simp add: botTurn_def Let_def split_def runLive_portfolio)
qed


subsection \<open>Refresh of a paper agent\<close>

lemma to_double_0: "to_double 0 = 0"
  by (simp add: to_double_def)

lemma updatePositions_eq:
  "updatePositions md ps (u, t) =
     (map (\<lambda>pos. pos\<lparr>p_pnl := positionPnl md pos\<rparr>) ps,
      foldl num_add u (map (positionPnl md) ps),
      foldl num_add t (map p_size ps))"
  by (induction ps arbitrary: u t) (simp_all add: Let_def)

lemma refreshPaper_eq:
  "refreshPaper md pf =
     pf\<lparr>pnl := foldl num_add 0 (map (positionPnl md) (positions pf)),
        totalValue := num_add (num_add (balance pf) (foldl num_add 0 (map p_size (positions pf))))
                        (foldl num_add 0 (map (positionPnl md) (positions pf))),
        positions := map (\<lambda>pos. pos\<lparr>p_pnl := positionPnl md pos\<rparr>) (positions pf)\<rparr>"
  by (simp add: refreshPaper_def updatePositions_eq)

lemma find_absent:
  "p_symbol pos \<notin> m_symbol ` set md \<Longrightarrow> find (\<lambda>m. m_symbol m = p_symbol pos) md = None"
  by (force simp: find_None_iff)

lemma refreshBot_paper:
  "tradingMode bt = Paper \<Longrightarrow>
   refreshBot env md bt (ref, w) =
     (Inr (bt\<lparr>portfolio := refreshPaper md (portfolio bt),
              valueHistory := lastN 300 (valueHistory bt @
                [\<lparr>vh_timestamp = Date_now env w,
                  vh_value = totalValue (refreshPaper md (portfolio bt))\<rparr>])\<rparr>), ref, w)"
  by (simp add: refreshBot_def Let_def)

lemma allFulfilled_Cons:
  "allFulfilled (r # rs) = Some bs' \<longleftrightarrow>
     (\<exists>b bs. r = Inr b \<and> allFulfilled rs = Some bs \<and> bs' = b # bs)"
  by (cases r) (auto split: option.splits)

lemma refreshBots_length:
  "allFulfilled (fst (refreshBots env md bs st)) = Some bs' \<Longrightarrow> length bs' = length bs"
proof (induction bs arbitrary: st bs')
  case Nil
  then show ?case by simp
next
  case (Cons b bs)
  from Cons.prems obtain b' bs0 where
    rs: "allFulfilled (fst (refreshBots env md bs (snd (refreshBot env md b st)))) = Some bs0"
    and bs': "bs' = b' # bs0"
    by (auto simp: split_def Let_def allFulfilled_Cons)
  from Cons.IH [OF rs] bs' show ?case by simp
qed

lemma refreshBots_paper:
  "allFulfilled (fst (refreshBots env md bs st)) = Some bs' \<Longrightarrow> i < length bs \<Longrightarrow>
   tradingMode (bs ! i) = Paper \<Longrightarrow>
   portfolio (bs' ! i) = refreshPaper md (portfolio (bs ! i))"
proof (induction bs arbitrary: st bs' i)
  case Nil
  then show ?case by simp
next
  case (Cons b bs)
  obtain ref w where st: "st = (ref, w)" by (cases st)
  from Cons.prems(1) obtain b' bs0 where
    r: "fst (refreshBot env md b st) = Inr b'"
    and rs: "allFulfilled (fst (refreshBots env md bs (snd (refreshBot env md b st)))) = Some bs0"
    and bs': "bs' = b' # bs0"
    by (auto simp: split_def Let_def allFulfilled_Cons)
  show ?case
  proof (cases i)
    case 0
    with Cons.prems(3) have "tradingMode b = Paper" by simp
    with r st have "b' = b\<lparr>portfolio := refreshPaper md (portfolio b),
              valueHistory := lastN 300 (valueHistory b @
                [\<lparr>vh_timestamp = Date_now env w,
                  vh_value = totalValue (refreshPaper md (portfolio b))\<rparr>])\<rparr>"
      by (simp add: refreshBot_paper)
    with 0 bs' show ?thesis by simp
  next
    case (Suc j)
    with Cons.prems have "j < length bs" "tradingMode (bs ! j) = Paper" by simp_all
    from Cons.IH [OF rs this] Suc bs' show ?thesis by simp
  qed
qed

lemma demo_pnl:
  "num_mul (num_mul (num_sub 44000 40000) (num_div (num_mul 100 2) 40000)) 1 = 20
   \<and> num_add (num_add 0 20) 0 = 20
   \<and> num_add (num_add 80 (num_add (num_add 0 100) 50)) 20 = 250"
  by code_simp

text \<open>
  C7, as the code has it. A refresh tick with no market data returns at once and leaves
  every agent as it was. A tick with market data whose refresh of the agents completes
  replaces the portfolio of every paper agent by \<open>refreshPaper\<close> of it and appends the new
  total value to the agent's value history. In the refreshed portfolio each position
  carries the unrealized PnL recomputed from the market data, the portfolio's PnL is the
  sum of these, accumulated from zero in the order of the positions, the total value is
  the balance plus the sum of the position sizes plus that sum, and the balance is
  untouched. For a position whose symbol is quoted, the PnL is
  \<open>(price - entryPrice) * (size * leverage / entryPrice)\<close>, times 1 for a long and -1 for a
  short; for a position whose symbol is not quoted (and whose entry price is not zero) it
  is zero.
\<close>

theorem paper_refresh_recomputes:
  "(tradingMode bt = Paper \<longrightarrow>
      refreshBot env md bt (ref, w) =
        (Inr (bt\<lparr>portfolio := refreshPaper md (portfolio bt),
                 valueHistory := lastN 300 (valueHistory bt @
                   [\<lparr>vh_timestamp = Date_now env w,
                     vh_value = totalValue (refreshPaper md (portfolio bt))\<rparr>])\<rparr>), ref, w))
   \<and> positions (refreshPaper md pf) = map (\<lambda>pos. pos\<lparr>p_pnl := positionPnl md pos\<rparr>) (positions pf)
   \<and> pnl (refreshPaper md pf) = foldl num_add 0 (map p_pnl (positions (refreshPaper md pf)))
   \<and> totalValue (refreshPaper md pf) =
       num_add (num_add (balance pf) (foldl num_add 0 (map p_size (positions pf))))
         (foldl num_add 0 (map p_pnl (positions (refreshPaper md pf))))
   \<and> balance (refreshPaper md pf) = balance pf
   \<and> (find (\<lambda>m. m_symbol m = p_symbol pos) md = Some m \<longrightarrow>
        positionPnl md pos =
          num_mul (num_mul (num_sub (m_price m) (p_entryPrice pos))
                     (num_div (num_mul (p_size pos) (p_leverage pos)) (p_entryPrice pos)))
            (if p_type pos = OrderType_LONG then 1 else - 1))
   \<and> (p_symbol pos \<notin> m_symbol ` set md \<and> p_entryPrice pos \<noteq> 0 \<longrightarrow> positionPnl md pos = 0)
   \<and> (md \<noteq> [] \<and> allFulfilled (fst (refreshBots env md (bots hs) (initialBalanceRef hs, w)))
          = Some bs \<longrightarrow>
        bots (fst (updatePortfolios env md (hs, w))) = bs
        \<and> length bs = length (bots hs)
        \<and> (\<forall>i < length (bots hs). tradingMode (bots hs ! i) = Paper \<longrightarrow>
              portfolio (bs ! i) = refreshPaper md (portfolio (bots hs ! i))))
   \<and> updatePortfolios env [] (hs, w) = (hs, w)"
proof (intro conjI impI allI)
  show "updatePortfolios env [] (hs, w) = (hs, w)"
    by (simp add: updatePortfolios_def)
next
  assume "tradingMode bt = Paper"
  then show "refreshBot env md bt (ref, w) =
        (Inr (bt\<lparr>portfolio := refreshPaper md (portfolio bt),
                 valueHistory := lastN 300 (valueHistory bt @
                   [\<lparr>vh_timestamp = Date_now env w,
                     vh_value = totalValue (refreshPaper md (portfolio bt))\<rparr>])\<rparr>), ref, w)"
    by (rule refreshBot_paper)
next
  show "positions (refreshPaper md pf) =
      map (\<lambda>pos. pos\<lparr>p_pnl := positionPnl md pos\<rparr>) (positions pf)"
    by (simp add: refreshPaper_eq)
next
  show "pnl (refreshPaper md pf) = foldl num_add 0 (map p_pnl (positions (refreshPaper md pf)))"
    by (simp add: refreshPaper_eq comp_def)
next
  show "totalValue (refreshPaper md pf) =
       num_add (num_add (balance pf) (foldl num_add 0 (map p_size (positions pf))))
         (foldl num_add 0 (map p_pnl (positions (refreshPaper md pf))))"
    by (simp add: refreshPaper_eq comp_def)
next
  show "balance (refreshPaper md pf) = balance pf"
    by (simp add: refreshPaper_eq)
next
  assume "find (\<lambda>m. m_symbol m = p_symbol pos) md = Some m"
  then show "positionPnl md pos =
          num_mul (num_mul (num_sub (m_price m) (p_entryPrice pos))
                     (num_div (num_mul (p_size pos) (p_leverage pos)) (p_entryPrice pos)))
            (if p_type pos = OrderType_LONG then 1 else - 1)"
    by (simp add: positionPnl_def currentPriceOf_def Let_def)
next
  assume "p_symbol pos \<notin> m_symbol ` set md \<and> p_entryPrice pos \<noteq> 0"
  then have "find (\<lambda>m. m_symbol m = p_symbol pos) md = None"
    by (simp add: find_absent)
  then show "positionPnl md pos = 0"
    by (simp add: positionPnl_def currentPriceOf_def Let_def num_sub_def num_mul_def to_double_0)
next
  assume h: "md \<noteq> [] \<and> allFulfilled (fst (refreshBots env md (bots hs) (initialBalanceRef hs, w)))
          = Some bs"
  then show "bots (fst (updatePortfolios env md (hs, w))) = bs"
    by (simp add: updatePortfolios_def split_def Let_def)
  from h have f: "allFulfilled (fst (refreshBots env md (bots hs) (initialBalanceRef hs, w)))
      = Some bs"
    by simp
  from f show "length bs = length (bots hs)"
    by (rule refreshBots_length)
  fix i
  assume "i < length (bots hs)" "tradingMode (bots hs ! i) = Paper"
  with f show "portfolio (bs ! i) = refreshPaper md (portfolio (bots hs ! i))"
    by (rule refreshBots_paper)
qed


text \<open>
  C7, as the claim states it, speaks of every refresh tick. On a tick with no market data
  the positions of a paper agent keep the PnL they had (7 and 1 here, where no symbol is
  quoted) and the total value stays 187, which is not the balance plus the sizes plus the
  PnL. On a tick with market data in which the venue refuses the request of a live agent
  of the same fleet, the paper agent keeps its old PnL as well, where the recomputed PnL of
  its first position is 20.
\<close>

theorem stale_pnl_after_refresh_tick:
  "tradingMode demoPaperBot = Paper
   \<and> map (\<lambda>b. map p_pnl (positions (portfolio b)))
        (bots (fst (updatePortfolios acceptingVenue [] (demoFleet, [])))) = [[7, 1], [7]]
   \<and> map (\<lambda>b. totalValue (portfolio b))
        (bots (fst (updatePortfolios acceptingVenue [] (demoFleet, [])))) = [187, 187]
   \<and> map (\<lambda>b. map p_pnl (positions (portfolio b)))
        (bots (fst (updatePortfolios refusingVenue demoTick (demoFleet, [])))) = [[7, 1], [7]]
   \<and> positionPnl demoTick demoPosition = 20"
proof -
  have a: "tradingMode demoPaperBot = Paper"
    by (simp add: demoPaperBot_def)
  have b: "updatePortfolios acceptingVenue [] (demoFleet, []) = (demoFleet, [])"
    by (simp add: updatePortfolios_def)
  have c: "map (\<lambda>b. map p_pnl (positions (portfolio b))) (bots demoFleet) = [[7, 1], [7]]"
      "map (\<lambda>b. totalValue (portfolio b)) (bots demoFleet) = [187, 187]"
    by (simp_all add: demoFleet_def demoPaperBot_def demoBot_def demoPortfolio_def
        demoPosition_def demoShort_def)
  have r: "fst (refreshBot refusingVenue demoTick demoBot st) = Inl ''Exchange sync timeout''"
    for st
    by (cases st) (simp add: refreshBot_def refusingVenue_def demoBot_def)
  have "allFulfilled (fst (refreshBots refusingVenue demoTick (bots demoFleet)
      (initialBalanceRef demoFleet, []))) = None"
    by (simp add: demoFleet_def split_def Let_def r refreshBot_paper [OF a])
  then have d: "bots (fst (updatePortfolios refusingVenue demoTick (demoFleet, [])))
      = bots demoFleet"
    by (simp add: updatePortfolios_def split_def Let_def demoTick_def)
  have e: "positionPnl demoTick demoPosition = 20"
    using demo_pnl
    by (simp add: positionPnl_def currentPriceOf_def demoTick_def demoPosition_def Let_def)
  from a b c d e show ?thesis
    by simp
qed

theorem paper_refresh_recomputes_witness:
  "positionPnl demoTick demoPosition = 20
   \<and> positionPnl demoTick demoShort = 0
   \<and> map p_pnl (positions (refreshPaper demoTick (portfolio demoPaperBot))) = [20, 0]
   \<and> pnl (refreshPaper demoTick (portfolio demoPaperBot)) = 20
   \<and> totalValue (refreshPaper demoTick (portfolio demoPaperBot)) = 250
   \<and> fst (refreshBot acceptingVenue demoTick demoPaperBot (Map.empty, [])) =
       Inr (demoPaperBot\<lparr>portfolio := refreshPaper demoTick (portfolio demoPaperBot),
              valueHistory := lastN 300 (valueHistory demoPaperBot @
                [\<lparr>vh_timestamp = 1000000, vh_value = 250\<rparr>])\<rparr>)
   \<and> length (bots (fst (updatePortfolios acceptingVenue demoTick (demoFleet, [])))) = 2
   \<and> portfolio (bots (fst (updatePortfolios acceptingVenue demoTick (demoFleet, []))) ! 0) =
       refreshPaper demoTick (portfolio demoPaperBot)
   \<and> totalValue (portfolio
         (bots (fst (updatePortfolios acceptingVenue demoTick (demoFleet, []))) ! 0)) = 250
   \<and> updatePortfolios acceptingVenue [] (demoFleet, []) = (demoFleet, [])"
proof -
  note t = paper_refresh_recomputes [where md = demoTick and pf = "portfolio demoPaperBot"
      and bt = demoPaperBot and env = acceptingVenue and ref = Map.empty and w = "[]"]
  have m: "tradingMode demoPaperBot = Paper"
    by (simp add: demoPaperBot_def)
  have f: "find (\<lambda>m. m_symbol m = p_symbol demoPosition) demoTick
      = Some \<lparr>m_symbol = ''BTCUSDT'', m_price = 44000\<rparr>"
    by (simp add: demoTick_def demoPosition_def)
  have g: "p_symbol demoShort \<notin> m_symbol ` set demoTick \<and> p_entryPrice demoShort \<noteq> 0"
    by (simp add: demoTick_def demoShort_def)
  from t [where pos = demoPosition and m = "\<lparr>m_symbol = ''BTCUSDT'', m_price = 44000\<rparr>"] f
  have p1: "positionPnl demoTick demoPosition = 20"
    using demo_pnl by (simp add: demoPosition_def)
  from t [where pos = demoShort] g
  have p2: "positionPnl demoTick demoShort = 0"
    by blast
  from t have pos: "positions (refreshPaper demoTick (portfolio demoPaperBot)) =
      map (\<lambda>pos. pos\<lparr>p_pnl := positionPnl demoTick pos\<rparr>) (positions (portfolio demoPaperBot))"
    by blast
  with p1 p2 have ps: "map p_pnl (positions (refreshPaper demoTick (portfolio demoPaperBot)))
      = [20, 0]"
    by (simp add: demoPaperBot_def demoPortfolio_def)
  from t have "pnl (refreshPaper demoTick (portfolio demoPaperBot)) =
      foldl num_add 0 (map p_pnl (positions (refreshPaper demoTick (portfolio demoPaperBot))))"
    by blast
  with ps demo_pnl have u: "pnl (refreshPaper demoTick (portfolio demoPaperBot)) = 20"
    by simp
  from t have "totalValue (refreshPaper demoTick (portfolio demoPaperBot)) =
       num_add (num_add (balance (portfolio demoPaperBot))
                  (foldl num_add 0 (map p_size (positions (portfolio demoPaperBot)))))
         (foldl num_add 0 (map p_pnl (positions (refreshPaper demoTick (portfolio demoPaperBot)))))"
    by blast
  with ps demo_pnl have v: "totalValue (refreshPaper demoTick (portfolio demoPaperBot)) = 250"
    by (simp add: demoPaperBot_def demoPortfolio_def demoPosition_def demoShort_def)
  from t m have "refreshBot acceptingVenue demoTick demoPaperBot (Map.empty, []) =
        (Inr (demoPaperBot\<lparr>portfolio := refreshPaper demoTick (portfolio demoPaperBot),
                 valueHistory := lastN 300 (valueHistory demoPaperBot @
                   [\<lparr>vh_timestamp = Date_now acceptingVenue [],
                     vh_value = totalValue (refreshPaper demoTick (portfolio demoPaperBot))\<rparr>])\<rparr>),
         Map.empty, [])"
    by blast
  with v have r: "fst (refreshBot acceptingVenue demoTick demoPaperBot (Map.empty, [])) =
       Inr (demoPaperBot\<lparr>portfolio := refreshPaper demoTick (portfolio demoPaperBot),
              valueHistory := lastN 300 (valueHistory demoPaperBot @
                [\<lparr>vh_timestamp = 1000000, vh_value = 250\<rparr>])\<rparr>)"
    by (simp add: acceptingVenue_def)
  have fleet: "bots demoFleet ! 0 = demoPaperBot" "length (bots demoFleet) = 2"
      "(0::nat) < length (bots demoFleet)"
    by (simp_all add: demoFleet_def)
  have ne: "demoTick \<noteq> []"
    by (simp add: demoTick_def)
  have "\<exists>bs. allFulfilled (fst (refreshBots acceptingVenue demoTick (bots demoFleet)
      (initialBalanceRef demoFleet, []))) = Some bs"
    by (simp add: demoFleet_def split_def Let_def refreshBot_def demoPaperBot_def demoBot_def
        acceptingVenue_def)
  then obtain bs where bs: "allFulfilled (fst (refreshBots acceptingVenue demoTick
      (bots demoFleet) (initialBalanceRef demoFleet, []))) = Some bs"
    by blast
  from ne bs have h: "demoTick \<noteq> [] \<and> allFulfilled (fst (refreshBots acceptingVenue
      demoTick (bots demoFleet) (initialBalanceRef demoFleet, []))) = Some bs"
    by simp
  note k = paper_refresh_recomputes [where md = demoTick and env = acceptingVenue
      and hs = demoFleet and w = "[]" and bs = bs, THEN conjunct2, THEN conjunct2,
      THEN conjunct2, THEN conjunct2, THEN conjunct2, THEN conjunct2, THEN conjunct2]
  note tick = k [THEN conjunct1, rule_format, OF h]
  note idle = k [THEN conjunct2]
  from tick have b1: "bots (fst (updatePortfolios acceptingVenue demoTick (demoFleet, []))) = bs"
    and b2: "length bs = length (bots demoFleet)"
    and b3: "\<forall>i<length (bots demoFleet). tradingMode (bots demoFleet ! i) = Paper \<longrightarrow>
        portfolio (bs ! i) = refreshPaper demoTick (portfolio (bots demoFleet ! i))"
    by blast+
  from b1 b2 fleet have t1:
    "length (bots (fst (updatePortfolios acceptingVenue demoTick (demoFleet, [])))) = 2"
    by simp
  from b3 fleet m have "portfolio (bs ! 0) = refreshPaper demoTick (portfolio demoPaperBot)"
    by auto
  with b1 have t2:
    "portfolio (bots (fst (updatePortfolios acceptingVenue demoTick (demoFleet, []))) ! 0) =
       refreshPaper demoTick (portfolio demoPaperBot)"
    by simp
  from t2 v have t3: "totalValue (portfolio
         (bots (fst (updatePortfolios acceptingVenue demoTick (demoFleet, []))) ! 0)) = 250"
    by simp
  from p1 p2 ps u v r t1 t2 t3 idle show ?thesis
    by (simp only: simp_thms)
qed


subsection \<open>The initial-balance figure\<close>

lemma initialSync_records:
  "fst (snd (initialSync env bt (ref, w))) (b_id bt) =
     Some (if tradingMode bt = Real then LIVE_BOT_INITIAL_BALANCE env
           else PAPER_BOT_INITIAL_BALANCE env)"
  by (simp add: initialSync_def Let_def split_def split: sum.splits)

lemma refreshBot_ref_keeps:
  "fst st k = Some v \<Longrightarrow> fst (snd (refreshBot env md bt st)) k = Some v"
  by (cases st) (auto simp: refreshBot_def Let_def split: sum.splits prod.splits)

lemma refreshBots_ref_keeps:
  "fst st k = Some v \<Longrightarrow> fst (snd (refreshBots env md bs st)) k = Some v"
proof (induction bs arbitrary: st)
  case Nil
  then show ?case by simp
next
  case (Cons b bs)
  from Cons.prems have "fst (snd (refreshBot env md b st)) k = Some v"
    by (rule refreshBot_ref_keeps)
  then have "fst (snd (refreshBots env md bs (snd (refreshBot env md b st)))) k = Some v"
    by (rule Cons.IH)
  then show ?case
    by (simp add: split_def Let_def)
qed

lemma updatePortfolios_ref_keeps:
  assumes "initialBalanceRef hs k = Some v"
  shows "initialBalanceRef (fst (updatePortfolios env md (hs, w))) k = Some v"
proof (cases "md = []")
  case True
  with assms show ?thesis
    by (simp add: updatePortfolios_def)
next
  case False
  from assms have "fst (initialBalanceRef hs, w) k = Some v"
    by simp
  then have "fst (snd (refreshBots env md (bots hs) (initialBalanceRef hs, w))) k = Some v"
    by (rule refreshBots_ref_keeps)
  with False show ?thesis
    by (simp add: updatePortfolios_def split_def Let_def split: option.splits)
qed

lemma runTradingTurn_ref:
  "initialBalanceRef (fst (runTradingTurn env sp (hs, w))) = initialBalanceRef hs"
  by (simp add: runTradingTurn_def split_def Let_def)

text \<open>
  C8, as the code has it. The figure of an agent is the constant of its trading mode, and
  \<open>initialize\<close> records it for every agent, whether the agent's sync with the venue
  succeeds or fails. No refresh of any agent changes a figure that is recorded, whatever
  the venue reports, and a decision turn does not touch the figures. A refresh records the
  constant for a live agent only when the agent has no figure and both venue requests
  succeed; a refresh whose venue request fails records nothing.
\<close>

theorem initial_balance_recorded_once:
  "fst (snd (initialSync env bt (ref, w))) (b_id bt) =
     Some (if tradingMode bt = Real then LIVE_BOT_INITIAL_BALANCE env
           else PAPER_BOT_INITIAL_BALANCE env)
   \<and> (ref k = Some v \<longrightarrow> fst (snd (refreshBot env md bt (ref, w))) k = Some v)
   \<and> (initialBalanceRef hs k = Some v \<longrightarrow>
        initialBalanceRef (fst (updatePortfolios env md (hs, w))) k = Some v)
   \<and> initialBalanceRef (fst (runTradingTurn env sp (hs, w))) = initialBalanceRef hs
   \<and> (tradingMode bt = Real \<and> ref (b_id bt) = None
        \<and> fst (refreshBot env md bt (ref, w)) = Inr bt' \<longrightarrow>
        fst (snd (refreshBot env md bt (ref, w))) =
          ref(b_id bt \<mapsto> LIVE_BOT_INITIAL_BALANCE env))
   \<and> (fst (refreshBot env md bt (ref, w)) = Inl message \<longrightarrow>
        fst (snd (refreshBot env md bt (ref, w))) = ref)"
proof (intro conjI impI)
  show "fst (snd (initialSync env bt (ref, w))) (b_id bt) =
     Some (if tradingMode bt = Real then LIVE_BOT_INITIAL_BALANCE env
           else PAPER_BOT_INITIAL_BALANCE env)"
    by (rule initialSync_records)
next
  assume "ref k = Some v"
  then have "fst (ref, w) k = Some v" by simp
  then show "fst (snd (refreshBot env md bt (ref, w))) k = Some v"
    by (rule refreshBot_ref_keeps)
next
  assume "initialBalanceRef hs k = Some v"
  then show "initialBalanceRef (fst (updatePortfolios env md (hs, w))) k = Some v"
    by (rule updatePortfolios_ref_keeps)
next
  show "initialBalanceRef (fst (runTradingTurn env sp (hs, w))) = initialBalanceRef hs"
    by (rule runTradingTurn_ref)
next
  assume "tradingMode bt = Real \<and> ref (b_id bt) = None
        \<and> fst (refreshBot env md bt (ref, w)) = Inr bt'"
  then show "fst (snd (refreshBot env md bt (ref, w))) =
          ref(b_id bt \<mapsto> LIVE_BOT_INITIAL_BALANCE env)"
    by (auto simp: refreshBot_def Let_def split: sum.splits prod.splits)
next
  assume "fst (refreshBot env md bt (ref, w)) = Inl message"
  then show "fst (snd (refreshBot env md bt (ref, w))) = ref"
    by (auto simp: refreshBot_def Let_def split: sum.splits prod.splits if_splits)
qed

text \<open>
  C8, as the claim states it, places the capture at the first successful sync. For an
  agent whose two initial venue requests fail, the figure is recorded all the same.
\<close>

theorem figure_recorded_without_sync:
  "tradingMode demoBot = Real
   \<and> fst (getRealAccountState refusingVenue (b_id demoBot) []) = Inl ''Exchange sync timeout''
   \<and> fst (getRealTradeHistory refusingVenue (b_id demoBot) []) = Inl ''Exchange sync timeout''
   \<and> fst (snd (initialSync refusingVenue demoBot (Map.empty, []))) (b_id demoBot) = Some 1000"
  by (simp add: initialSync_def demoBot_def refusingVenue_def)

theorem initial_balance_recorded_once_witness:
  "fst (snd (initialSync acceptingVenue demoBot (Map.empty, []))) ''bot_1'' = Some 1000
   \<and> balance (portfolio (fst (initialSync acceptingVenue demoBot (Map.empty, [])))) = 60
   \<and> fst (snd (refreshBot acceptingVenue demoTick demoBot ([''bot_1'' \<mapsto> 1000], [])))
        ''bot_1'' = Some 1000
   \<and> initialBalanceRef (fst (updatePortfolios acceptingVenue demoTick
        (\<lparr>bots = [demoBot], markets = [], initialBalanceRef = [''bot_1'' \<mapsto> 1000]\<rparr>, [])))
        ''bot_1'' = Some 1000
   \<and> map (\<lambda>b. balance (portfolio b)) (bots (fst (updatePortfolios acceptingVenue demoTick
        (\<lparr>bots = [demoBot], markets = [], initialBalanceRef = [''bot_1'' \<mapsto> 1000]\<rparr>, []))))
       = [60]"
proof -
  let ?hs = "\<lparr>bots = [demoBot], markets = [], initialBalanceRef = [''bot_1'' \<mapsto> 1000]\<rparr>"
  note t = initial_balance_recorded_once [where env = acceptingVenue and bt = demoBot
      and ref = "[''bot_1'' \<mapsto> 1000]" and w = "[]" and k = "''bot_1''" and v = 1000
      and md = demoTick and hs = ?hs]
  note i = initial_balance_recorded_once [where env = acceptingVenue and bt = demoBot
      and ref = Map.empty and w = "[]", THEN conjunct1]
  have m: "tradingMode demoBot = Real" "b_id demoBot = ''bot_1''"
      "LIVE_BOT_INITIAL_BALANCE acceptingVenue = 1000"
    by (simp_all add: demoBot_def acceptingVenue_def)
  from i m have a: "fst (snd (initialSync acceptingVenue demoBot (Map.empty, []))) ''bot_1''
      = Some 1000"
    by simp
  have b: "balance (portfolio (fst (initialSync acceptingVenue demoBot (Map.empty, [])))) = 60"
    by (simp add: initialSync_def demoBot_def acceptingVenue_def)
  from t have c: "fst (snd (refreshBot acceptingVenue demoTick demoBot
      ([''bot_1'' \<mapsto> 1000], []))) ''bot_1'' = Some 1000"
    by simp
  from t have d: "initialBalanceRef (fst (updatePortfolios acceptingVenue demoTick (?hs, [])))
        ''bot_1'' = Some 1000"
    by simp
  have e: "map (\<lambda>b. balance (portfolio b)) (bots (fst (updatePortfolios acceptingVenue demoTick
        (?hs, [])))) = [60]"
    by (simp add: updatePortfolios_def demoTick_def refreshBot_def demoBot_def
        acceptingVenue_def Let_def)
  from a b c d e show ?thesis
    by (simp only: simp_thms)
qed


subsection \<open>The two bounded histories\<close>

lemma length_lastN: "length (lastN n xs) \<le> n"
  by (simp add: lastN_def)

lemma executeLiveDecision_histories:
  "botLogs (fst (executeLiveDecision env sp mkts bt va st)) = botLogs (fst st)
   \<and> valueHistory (fst (executeLiveDecision env sp mkts bt va st)) = valueHistory (fst st)"
proof -
  obtain ubs ns w where st: "st = (ubs, ns, w)"
    by (cases st) auto
  obtain d lev where va: "va = (d, lev)"
    by (cases va)
  have c: "botLogs (fst (liveClose env sp bt d pid (ubs, ns, w))) = botLogs ubs
      \<and> valueHistory (fst (liveClose env sp bt d pid (ubs, ns, w))) = valueHistory ubs" for pid
    by (simp add: liveClose_def Let_def split_def split: option.splits prod.splits)
  show ?thesis
    unfolding st va
    by (simp add: executeLiveDecision_def liveOpen_state c split: option.splits)
qed

lemma runLive_histories:
  "botLogs (fst (runLive env sp mkts bt vas st)) = botLogs (fst st)
   \<and> valueHistory (fst (runLive env sp mkts bt vas st)) = valueHistory (fst st)"
  by (induction vas arbitrary: st) (simp_all add: executeLiveDecision_histories)

lemma botTurn_histories:
  "(\<exists>newLog. botLogs (fst (botTurn env sp mkts bt w)) = take 50 (newLog # botLogs bt)
       \<and> l_decisions newLog = snd (fst (getDecision env bt mkts w))
       \<and> l_prompt newLog = fst (fst (getDecision env bt mkts w)))
   \<and> valueHistory (fst (botTurn env sp mkts bt w)) = valueHistory bt"
  by (simp add: botTurn_def Let_def split_def runLive_histories)

lemma botTurn_bounded:
  "historiesBounded bt \<Longrightarrow> historiesBounded (fst (botTurn env sp mkts bt w))"
  by (simp add: historiesBounded_def botTurn_def Let_def split_def runLive_histories)

lemma turnLoop_step:
  "\<not> isPaused b \<Longrightarrow>
   turnLoop env sp mkts (b # bs) (current, w) =
     turnLoop env sp mkts bs
       (map (\<lambda>x. if b_id x = b_id b then fst (botTurn env sp mkts b w) else x) current,
        snd (botTurn env sp mkts b w))"
  by (simp add: split_def Let_def cong: if_cong)

lemma turnLoop_bounded:
  "list_all historiesBounded bs \<Longrightarrow> list_all historiesBounded (fst st) \<Longrightarrow>
   list_all historiesBounded (fst (turnLoop env sp mkts bs st))"
proof (induction bs arbitrary: st)
  case Nil
  then show ?case by simp
next
  case (Cons b bs)
  obtain current w where st: "st = (current, w)" by (cases st)
  from Cons.prems have b: "historiesBounded b" and bs: "list_all historiesBounded bs"
    by simp_all
  show ?case
  proof (cases "isPaused b")
    case True
    with Cons.IH [OF bs Cons.prems(2)] show ?thesis by simp
  next
    case False
    let ?b' = "fst (botTurn env sp mkts b w)"
    let ?w' = "snd (botTurn env sp mkts b w)"
    let ?cur = "map (\<lambda>x. if b_id x = b_id b then ?b' else x) current"
    from b have "historiesBounded ?b'" by (rule botTurn_bounded)
    with Cons.prems(2) st have "list_all historiesBounded (fst (?cur, ?w'))"
      by (auto simp: list_all_iff)
    from Cons.IH [OF bs this] False show ?thesis
      unfolding st by (simp add: turnLoop_step del: turnLoop.simps)
  qed
qed

lemma runTradingTurn_bounded:
  "list_all historiesBounded (bots hs) \<Longrightarrow>
   list_all historiesBounded (bots (fst (runTradingTurn env sp (hs, w))))"
  using turnLoop_bounded [of "bots hs" "(bots hs, w)" env sp "markets hs"]
  by (simp add: runTradingTurn_def split_def Let_def)

lemma refreshBot_histories:
  "fst (refreshBot env md bt st) = Inr bt' \<Longrightarrow>
   botLogs bt' = botLogs bt
   \<and> (\<exists>point. valueHistory bt' = lastN 300 (valueHistory bt @ [point])
         \<and> vh_value point = totalValue (portfolio bt'))"
  by (cases st) (auto simp: refreshBot_def Let_def split: sum.splits prod.splits if_splits)

lemma refreshBot_bounded:
  "fst (refreshBot env md bt st) = Inr bt' \<Longrightarrow> historiesBounded bt \<Longrightarrow> historiesBounded bt'"
  using refreshBot_histories [of env md bt st bt']
  by (auto simp: historiesBounded_def length_lastN)

lemma refreshBots_bounded:
  "allFulfilled (fst (refreshBots env md bs st)) = Some bs' \<Longrightarrow>
   list_all historiesBounded bs \<Longrightarrow> list_all historiesBounded bs'"
proof (induction bs arbitrary: st bs')
  case Nil
  then show ?case by simp
next
  case (Cons b bs)
  from Cons.prems(1) obtain b' bs0 where
    r: "fst (refreshBot env md b st) = Inr b'"
    and rs: "allFulfilled (fst (refreshBots env md bs (snd (refreshBot env md b st)))) = Some bs0"
    and bs': "bs' = b' # bs0"
    by (auto simp: split_def Let_def allFulfilled_Cons)
  from Cons.prems(2) have "historiesBounded b" "list_all historiesBounded bs"
    by simp_all
  with refreshBot_bounded [OF r] Cons.IH [OF rs] bs' show ?case
    by simp
qed

lemma updatePortfolios_bounded:
  assumes "list_all historiesBounded (bots hs)"
  shows "list_all historiesBounded (bots (fst (updatePortfolios env md (hs, w))))"
proof (cases "md = []")
  case True
  with assms show ?thesis by (simp add: updatePortfolios_def)
next
  case False
  show ?thesis
  proof (cases "allFulfilled (fst (refreshBots env md (bots hs) (initialBalanceRef hs, w)))")
    case None
    with False assms show ?thesis
      by (simp add: updatePortfolios_def split_def Let_def)
  next
    case (Some bs')
    from refreshBots_bounded [OF Some assms] Some False show ?thesis
      by (simp add: updatePortfolios_def split_def Let_def)
  qed
qed

lemma createNewBot_bounded:
  "historiesBounded (createNewBot env ident name prompt mode w)"
  by (simp add: historiesBounded_def createNewBot_def Let_def)

lemma initialSync_bounded:
  "historiesBounded bt \<Longrightarrow> historiesBounded (fst (initialSync env bt st))"
  by (cases st)
    (auto simp: historiesBounded_def initialSync_def Let_def split_def split: sum.splits)

lemma initialSyncAll_bounded:
  "list_all historiesBounded bs \<Longrightarrow> list_all historiesBounded (fst (initialSyncAll env bs st))"
proof (induction bs arbitrary: st)
  case Nil
  then show ?case by simp
next
  case (Cons b bs)
  then show ?case
    by (simp add: split_def Let_def initialSync_bounded)
qed

lemma initialBots_bounded:
  "list_all historiesBounded savedBots \<Longrightarrow>
   list_all historiesBounded (initialBots env botConfigs savedBots w)"
  by (auto simp: initialBots_def list_all_iff historiesBounded_def createNewBot_def Let_def
      split: option.splits)

lemma initialize_bounded:
  "list_all historiesBounded savedBots \<Longrightarrow>
   list_all historiesBounded (bots (fst (initialize env botConfigs savedBots w)))"
  by (simp add: initialize_def split_def Let_def initialSyncAll_bounded initialBots_bounded)

lemma reachable_bounded:
  "reachable env sp st \<Longrightarrow> list_all historiesBounded (bots (fst st))"
proof (induction rule: reachable.induct)
  case (fresh botConfigs w)
  show ?case by (rule initialize_bounded) simp
next
  case (resumed savedBots botConfigs w)
  then show ?case by (rule initialize_bounded)
next
  case (world hs w w')
  then show ?case by simp
next
  case (refresh st marketData)
  then show ?case
    by (cases st) (simp add: updatePortfolios_bounded)
next
  case (turn st)
  then show ?case
    by (cases st) (simp add: runTradingTurn_bounded)
qed


text \<open>
  C9. In every state the hook can be in, every agent has at most 50 turn-log entries and
  at most 300 value-history points. A decision turn of an agent puts exactly one new entry,
  with the proposed decisions and the prompt, in front of the agent's log and keeps the
  first 50 entries, so the oldest entry leaves a full log; the turn leaves the value
  history as it is. A refresh of an agent appends one point, with the refreshed total
  value, to the value history and keeps the last 300 points; it leaves the log as it is.
\<close>

theorem histories_stay_bounded:
  "(reachable env sp (hs, w) \<longrightarrow> list_all historiesBounded (bots hs))
   \<and> (\<exists>newLog. botLogs (fst (botTurn env sp mkts bt w)) = take 50 (newLog # botLogs bt)
         \<and> l_decisions newLog = snd (fst (getDecision env bt mkts w))
         \<and> l_prompt newLog = fst (fst (getDecision env bt mkts w)))
   \<and> length (botLogs (fst (botTurn env sp mkts bt w))) = min 50 (Suc (length (botLogs bt)))
   \<and> valueHistory (fst (botTurn env sp mkts bt w)) = valueHistory bt
   \<and> (fst (refreshBot env md bt st) = Inr bt' \<longrightarrow>
        botLogs bt' = botLogs bt
        \<and> (\<exists>point. valueHistory bt' = lastN 300 (valueHistory bt @ [point])
              \<and> vh_value point = totalValue (portfolio bt'))
        \<and> length (valueHistory bt') = min 300 (Suc (length (valueHistory bt))))
   \<and> lastN 300 (xs @ [x]) = drop (Suc (length xs) - 300) (xs @ [x])"
proof (intro conjI impI)
  assume "reachable env sp (hs, w)"
  then have "list_all historiesBounded (bots (fst (hs, w)))"
    by (rule reachable_bounded)
  then show "list_all historiesBounded (bots hs)"
    by simp
next
  show "\<exists>newLog. botLogs (fst (botTurn env sp mkts bt w)) = take 50 (newLog # botLogs bt)
         \<and> l_decisions newLog = snd (fst (getDecision env bt mkts w))
         \<and> l_prompt newLog = fst (fst (getDecision env bt mkts w))"
    by (rule botTurn_histories [THEN conjunct1])
  then show "length (botLogs (fst (botTurn env sp mkts bt w)))
      = min 50 (Suc (length (botLogs bt)))"
    by auto
  show "valueHistory (fst (botTurn env sp mkts bt w)) = valueHistory bt"
    by (rule botTurn_histories [THEN conjunct2])
next
  assume r: "fst (refreshBot env md bt st) = Inr bt'"
  from refreshBot_histories [OF r] show "botLogs bt' = botLogs bt"
    by blast
  from refreshBot_histories [OF r]
  show e: "\<exists>point. valueHistory bt' = lastN 300 (valueHistory bt @ [point])
              \<and> vh_value point = totalValue (portfolio bt')"
    by blast
  then show "length (valueHistory bt') = min 300 (Suc (length (valueHistory bt)))"
    by (auto simp: lastN_def)
next
  show "lastN 300 (xs @ [x]) = drop (Suc (length xs) - 300) (xs @ [x])"
    by (simp add: lastN_def)
qed

theorem histories_stay_bounded_witness:
  "list_all historiesBounded
     (bots (fst (runTradingTurn acceptingVenue Map.empty
        (updatePortfolios acceptingVenue demoTick
           (initialize acceptingVenue [demoConfig] [] [])))))
   \<and> length (botLogs (fst (botTurn acceptingVenue Map.empty demoMarkets demoBot []))) = 1
   \<and> length (valueHistory (fst (botTurn acceptingVenue Map.empty demoMarkets demoBot []))) = 1"
proof -
  let ?st = "runTradingTurn acceptingVenue Map.empty
        (updatePortfolios acceptingVenue demoTick
           (initialize acceptingVenue [demoConfig] [] []))"
  have "reachable acceptingVenue Map.empty ?st"
    by (intro reachable.turn reachable.refresh reachable.fresh)
  then have r: "reachable acceptingVenue Map.empty (fst ?st, snd ?st)"
    by simp
  note a = histories_stay_bounded [where env = acceptingVenue and sp = Map.empty
      and hs = "fst ?st" and w = "snd ?st", THEN conjunct1, rule_format, OF r]
  note u = histories_stay_bounded [where env = acceptingVenue and sp = Map.empty
      and mkts = demoMarkets and bt = demoBot and w = "[]", THEN conjunct2, THEN conjunct2]
  have l: "botLogs demoBot = []" "length (valueHistory demoBot) = 1"
    by (simp_all add: demoBot_def)
  from u [THEN conjunct1] l have b:
    "length (botLogs (fst (botTurn acceptingVenue Map.empty demoMarkets demoBot []))) = 1"
    by simp
  from u [THEN conjunct2, THEN conjunct1] l have c:
    "length (valueHistory (fst (botTurn acceptingVenue Map.empty demoMarkets demoBot []))) = 1"
    by simp
  from a b c show ?thesis
    by (simp only: simp_thms)
qed


subsection \<open>Precision adapter\<close>

text \<open>
  In exact arithmetic the expression of the source truncates: the result is a multiple
  of \<open>10^-p\<close>, at most \<open>q\<close> and less than \<open>10^-p\<close> below it.
\<close>

lemma exact_truncation:
  fixes q :: rat
  shows "of_int \<lfloor>q * 10 ^ p\<rfloor> / 10 ^ p \<le> q
    \<and> q - of_int \<lfloor>q * 10 ^ p\<rfloor> / 10 ^ p < 1 / 10 ^ p"
proof -
  have pos: "(0::rat) < 10 ^ p"
    by simp
  have "of_int \<lfloor>q * 10 ^ p\<rfloor> \<le> q * 10 ^ p"
    by (rule of_int_floor_le)
  with pos have a: "of_int \<lfloor>q * 10 ^ p\<rfloor> / 10 ^ p \<le> q"
    by (simp add: pos_divide_le_eq)
  have "q * 10 ^ p < of_int \<lfloor>q * 10 ^ p\<rfloor> + 1"
    by linarith
  with pos have "q < (of_int \<lfloor>q * 10 ^ p\<rfloor> + 1) / 10 ^ p"
    by (simp add: pos_less_divide_eq)
  then have b: "q - of_int \<lfloor>q * 10 ^ p\<rfloor> / 10 ^ p < 1 / 10 ^ p"
    by (simp add: add_divide_distrib)
  from a b show ?thesis
    by simp
qed

text \<open>
  C6. The claim: for every symbol and every non-negative raw quantity \<open>q\<close> the adjustment
  returns \<open>q\<close> truncated toward zero to the symbol's quantity precision (3 digits when
  the symbol is unknown), so the adjusted quantity never exceeds \<open>q\<close>.
  The source computes \<open>Math.floor(q * factor) / factor\<close> in binary64 arithmetic. For the
  number \<open>q = 0.11699999999999999\<close> and an unknown symbol the product \<open>q * 1000\<close> rounds
  to \<open>117\<close>, the floor keeps it, and the quotient is the number \<open>0.117\<close>, which is
  greater than \<open>q\<close>: the quantity is rounded up, by less than one part in \<open>10^15\<close>.
\<close>

theorem getAdjustedQuantity_rounds_up:
  "to_double (131730289100587 / 1125899906842624) = 131730289100587 / 1125899906842624
   \<and> num_mul (131730289100587 / 1125899906842624) (Math_pow10 3) = 117
   \<and> getAdjustedQuantity Map.empty ''BTCUSDT'' (131730289100587 / 1125899906842624)
       = 8430738502437569 / 72057594037927936
   \<and> (131730289100587 / 1125899906842624 :: rat) < 8430738502437569 / 72057594037927936"
  by code_simp

end
